theory Spec2Isabelle
  imports Complex_Main "HOL-Library.Sublist"
begin

section \<open>The Telegram notifier script \<^verbatim>\<open>scripts/tg_notify.py\<close>\<close>

text \<open>
  The script is one function, \<^verbatim>\<open>send_telegram_file\<close>, that reads the environment and
  the command line, looks for a zip file, builds a caption and posts the file to the Telegram
  bot API. The embedding below follows it line by line. Everything the function takes from
  outside (environment, arguments, what the file system and the network answer, what standard
  output can encode) is a field of a record \<open>world\<close>; everything it does to the outside
  (printing, globbing, reading a file size, opening the file, posting) is an event of a trace,
  in program order; every way of leaving the function other than returning is a raised
  exception, a value of a sum type.
\<close>

subsection \<open>Python strings\<close>

text \<open>
  A Python \<^verbatim>\<open>str\<close> is a sequence of Unicode code points, so it is modelled as a list of
  naturals. \<open>ascii\<close> embeds an ASCII literal; the code points of the source's emoji and CJK
  characters are written out as numbers.
\<close>

type_synonym str = "nat list"

definition ascii :: "string \<Rightarrow> str" where
  "ascii s = map of_char s"

text \<open>\<^verbatim>\<open>str.isspace\<close> for one code point, and \<^verbatim>\<open>str.strip()\<close> with no argument.\<close>

definition py_isspace :: "nat \<Rightarrow> bool" where
  "py_isspace c \<longleftrightarrow>
     (9 \<le> c \<and> c \<le> 13) \<or> (28 \<le> c \<and> c \<le> 32) \<or> c = 133 \<or> c = 160 \<or> c = 5760 \<or>
     (8192 \<le> c \<and> c \<le> 8202) \<or> c = 8232 \<or> c = 8233 \<or> c = 8239 \<or> c = 8287 \<or> c = 12288"

definition strip :: "str \<Rightarrow> str" where
  "strip s = rev (dropWhile py_isspace (rev (dropWhile py_isspace s)))"

text \<open>\<^verbatim>\<open>os.path.basename\<close> (POSIX): what follows the last slash (code point 47).\<close>

definition basename :: "str \<Rightarrow> str" where
  "basename p = rev (takeWhile (\<lambda>c. c \<noteq> 47) (rev p))"

text \<open>Decimal digits of a natural, and \<^verbatim>\<open>str(i)\<close> for an integer \<open>i\<close>.\<close>

fun dec_nat :: "nat \<Rightarrow> str" where
  "dec_nat n = (if n < 10 then [48 + n] else dec_nat (n div 10) @ [48 + n mod 10])"

declare dec_nat.simps [simp del]

definition str_int :: "int \<Rightarrow> str" where
  "str_int i = (if i < 0 then 45 # dec_nat (nat (- i)) else dec_nat (nat i))"

subsection \<open>Floats: the size in megabytes and its \<^verbatim>\<open>.2f\<close> format\<close>

text \<open>
  A finite double is a rational number, so the float \<^verbatim>\<open>file_size\<close> is modelled by its exact
  value in \<open>rat\<close>. \<^verbatim>\<open>int.bit_length()\<close> and the conversion of a non-negative integer to the
  nearest double (53 significant bits, ties to the even significand):
\<close>

fun bit_length :: "nat \<Rightarrow> nat" where
  "bit_length n = (if n = 0 then 0 else Suc (bit_length (n div 2)))"

declare bit_length.simps [simp del]

definition float_of_nat :: "nat \<Rightarrow> rat" where
  "float_of_nat n =
     (if bit_length n \<le> 53 then of_nat n
      else let s = bit_length n - 53; q = n div 2 ^ s; r = n mod 2 ^ s;
               m = (if 2 ^ s < 2 * r \<or> (2 * r = 2 ^ s \<and> odd q) then q + 1 else q)
           in of_nat (m * 2 ^ s))"

text \<open>
  Line 30, \<^verbatim>\<open>os.path.getsize(file_path) / 1024 / 1024\<close>. Python's \<^verbatim>\<open>int / int\<close> is the double
  nearest to the exact quotient, and dividing by 1024 only changes the binary exponent, so the
  two divisions give the double nearest to the byte count, scaled by \<open>2\<^sup>-\<^sup>2\<^sup>0\<close>. A file size is
  an \<^verbatim>\<open>off_t\<close>, below \<open>2\<^sup>6\<^sup>3\<close>: far from the overflow and underflow of a double.
\<close>

definition file_size_mb :: "nat \<Rightarrow> rat" where
  "file_size_mb n = float_of_nat n / 1024 / 1024"

text \<open>
  \<^verbatim>\<open>f"{x:.2f}"\<close>: the exact value of the double \<open>x\<close>, rounded to the nearest hundredth (a tie
  goes to the even hundredth), printed with its integer part, a point and two digits.
\<close>

definition round_half_even :: "rat \<Rightarrow> nat" where
  "round_half_even y =
     (let f = nat \<lfloor>y\<rfloor>; d = y - of_nat f
      in if d < 1 / 2 then f else if 1 / 2 < d then f + 1 else if even f then f else f + 1)"

definition two_decimals :: "nat \<Rightarrow> str" where
  "two_decimals c = dec_nat (c div 100) @ [46, 48 + c mod 100 div 10, 48 + c mod 10]"

definition fmt_2f :: "rat \<Rightarrow> str" where
  "fmt_2f x = (if x < 0 then [45] else []) @ two_decimals (round_half_even (\<bar>x\<bar> * 100))"

subsection \<open>Exceptions, requests, events, the world\<close>

text \<open>
  \<open>Exception msg\<close> is any instance of class \<^verbatim>\<open>Exception\<close> (\<^verbatim>\<open>OSError\<close>, the
  \<^verbatim>\<open>requests\<close> exceptions, ...) with \<^verbatim>\<open>str(e) = msg\<close>. \<open>SystemExit\<close> (raised by
  \<^verbatim>\<open>sys.exit\<close>) and \<open>KeyboardInterrupt\<close> derive from \<^verbatim>\<open>BaseException\<close> only.
\<close>

datatype py_exception = SystemExit int | KeyboardInterrupt | Exception str

record request =
  url :: str
  data :: "str \<rightharpoonup> str"
  files :: "str \<rightharpoonup> str"
  timeout :: nat

record response =
  status_code :: int
  text_of :: str

datatype event =
    Print str
  | Glob_call str
  | Getsize_call str
  | Open_call str
  | Post_call request

text \<open>
  What one run finds outside: \<^verbatim>\<open>os.environ\<close>, \<^verbatim>\<open>sys.argv\<close>, the list \<^verbatim>\<open>glob.glob\<close>
  returns for a pattern, what \<^verbatim>\<open>os.path.getsize\<close> returns or raises for a path, whether
  \<^verbatim>\<open>open(path, "rb")\<close> raises, and what \<^verbatim>\<open>requests.post\<close> returns or raises. The last
  two fields are the encoding of \<^verbatim>\<open>sys.stdout\<close>: which code points beyond ASCII it can
  encode, and the text \<^verbatim>\<open>str(e)\<close> of the \<^verbatim>\<open>UnicodeEncodeError\<close> it raises, given the
  position of the first code point it cannot encode and the run of such code points there.
\<close>

record world =
  environ :: "str \<rightharpoonup> str"
  argv :: "str list"
  glob :: "str \<Rightarrow> str list"
  getsize :: "str \<Rightarrow> py_exception + nat"
  open_rb :: "str \<Rightarrow> py_exception option"
  post :: "request \<Rightarrow> py_exception + response"
  encodable :: "nat \<Rightarrow> bool"
  encode_error :: "nat \<Rightarrow> str \<Rightarrow> str"

subsection \<open>Printing\<close>

text \<open>
  \<^verbatim>\<open>print(s)\<close> encodes \<open>s\<close> for standard output. Every encoding of standard output
  encodes ASCII; a code point from 128 on is encoded when the encoding has it. A text with a
  code point that cannot be encoded is not written: \<^verbatim>\<open>print\<close> raises
  \<^verbatim>\<open>UnicodeEncodeError\<close>, an instance of \<^verbatim>\<open>Exception\<close>.
\<close>

definition can_encode :: "world \<Rightarrow> nat \<Rightarrow> bool" where
  "can_encode w c \<longleftrightarrow> c < 128 \<or> encodable w c"

definition can_print :: "world \<Rightarrow> str \<Rightarrow> bool" where
  "can_print w s \<longleftrightarrow> list_all (can_encode w) s"

definition print_error :: "world \<Rightarrow> str \<Rightarrow> py_exception option" where
  "print_error w s =
     (if can_print w s then None
      else Some (Exception (encode_error w (length (takeWhile (can_encode w) s))
                   (takeWhile (\<lambda>c. \<not> can_encode w c) (dropWhile (can_encode w) s)))))"

text \<open>
  A step of the function gives the events it caused and either returns or raises.
  \<open>py_print\<close> is the statement \<^verbatim>\<open>print(s)\<close>; \<open>then_do a b\<close> is \<open>a\<close> followed by \<open>b\<close>:
  when \<open>a\<close> raises, \<open>b\<close> is not run.
\<close>

type_synonym step = "event list \<times> (py_exception + unit)"

definition py_print :: "world \<Rightarrow> str \<Rightarrow> step" where
  "py_print w s =
     (case print_error w s of None \<Rightarrow> ([Print s], Inr ()) | Some e \<Rightarrow> ([], Inl e))"

definition then_do :: "step \<Rightarrow> step \<Rightarrow> step" where
  "then_do a b = (case snd a of Inl e \<Rightarrow> a | Inr u \<Rightarrow> (fst a @ fst b, snd b))"

text \<open>\<^verbatim>\<open>sys.exit(1)\<close>.\<close>

definition sys_exit_1 :: step where
  "sys_exit_1 = ([], Inl (SystemExit 1))"

text \<open>Truth value of an optional string: \<^verbatim>\<open>not x\<close> holds for \<^verbatim>\<open>None\<close> and for \<^verbatim>\<open>""\<close>.\<close>

fun falsy :: "str option \<Rightarrow> bool" where
  "falsy None = True"
| "falsy (Some s) = (s = [])"

text \<open>\<^verbatim>\<open>os.environ.get(name, default)\<close>.\<close>

definition environ_get :: "world \<Rightarrow> str \<Rightarrow> str \<Rightarrow> str" where
  "environ_get w name dflt = (case environ w name of None \<Rightarrow> dflt | Some v \<Rightarrow> v)"

subsection \<open>The local variables of \<^verbatim>\<open>send_telegram_file\<close>, lines 7 to 34\<close>

definition bot_token :: "world \<Rightarrow> str option" where
  "bot_token w = environ w (ascii ''TELEGRAM_BOT_TOKEN'')"

definition chat_id :: "world \<Rightarrow> str option" where
  "chat_id w = environ w (ascii ''TELEGRAM_CHAT_ID'')"

definition topic_id :: "world \<Rightarrow> str option" where
  "topic_id w = (if 1 < length (argv w) then Some (argv w ! 1) else None)"

definition event_label :: "world \<Rightarrow> str" where
  "event_label w =
     (if 2 < length (argv w) then argv w ! 2
      else ascii ''New Yield / '' @ [0x65B0, 0x4EA7, 0x7269])"

definition version :: "world \<Rightarrow> str" where
  "version w = environ_get w (ascii ''META_HYBRID_VERSION'') (ascii ''Unknown'')"

definition repo :: "world \<Rightarrow> str" where
  "repo w = environ_get w (ascii ''GITHUB_REPOSITORY'') []"

definition run_id :: "world \<Rightarrow> str" where
  "run_id w = environ_get w (ascii ''GITHUB_RUN_ID'') []"

definition server_url :: "world \<Rightarrow> str" where
  "server_url w = environ_get w (ascii ''GITHUB_SERVER_URL'') (ascii ''https://github.com'')"

definition run_url :: "world \<Rightarrow> str" where
  "run_url w = server_url w @ [47] @ repo w @ ascii ''/actions/runs/'' @ run_id w"

definition zip_pattern :: str where
  "zip_pattern = ascii ''output/*.zip''"

definition files_found :: "world \<Rightarrow> str list" where
  "files_found w = glob w zip_pattern"

text \<open>\<^verbatim>\<open>files[0]\<close>; the function reads it only after \<^verbatim>\<open>if not files\<close>.\<close>

definition file_path :: "world \<Rightarrow> str" where
  "file_path w = hd (files_found w)"

definition file_name :: "world \<Rightarrow> str" where
  "file_name w = basename (file_path w)"

text \<open>The f-string of line 32; \<open>n\<close> is the byte count \<^verbatim>\<open>getsize\<close> returned.\<close>

definition selecting_line :: "world \<Rightarrow> nat \<Rightarrow> str" where
  "selecting_line w n =
     ascii ''Selecting yield: '' @ file_name w @ ascii '' ('' @ fmt_2f (file_size_mb n)
       @ ascii '' MB)''"

text \<open>
  Line 34. It is reached only when \<open>bot_token w\<close> is a non-empty string; formatting
  \<^verbatim>\<open>None\<close> would give the text \<^verbatim>\<open>None\<close>.
\<close>

definition post_url :: "world \<Rightarrow> str" where
  "post_url w =
     ascii ''https://api.telegram.org/bot''
       @ (case bot_token w of None \<Rightarrow> ascii ''None'' | Some t \<Rightarrow> t)
       @ ascii ''/sendDocument''"

subsection \<open>Caption (lines 36 to 42) and payload (lines 44 to 52)\<close>

definition caption :: "world \<Rightarrow> nat \<Rightarrow> str" where
  "caption w n =
     [0x1F33E] @ ascii '' <b>Meta-Hybrid: '' @ event_label w @ ascii ''</b>'' @ [10, 10]
     @ [0x1F9EC] @ ascii '' <b>Cultivar ('' @ [0x54C1, 0x79CD] @ ascii ''):</b> <code>''
       @ version w @ ascii ''</code>'' @ [10]
     @ [0x1F961] @ ascii '' <b>Yield ('' @ [0x4EA7, 0x7269] @ ascii ''):</b> ''
       @ file_name w @ [10]
     @ [0x2696, 0xFE0F] @ ascii '' <b>Weight ('' @ [0x91CD, 0x91CF] @ ascii ''):</b> ''
       @ fmt_2f (file_size_mb n) @ ascii '' MB'' @ [10, 10]
     @ [0x1F69C] @ ascii '' <a href='' @ [39] @ run_url w @ [39]
       @ ascii ''>View Field Log ('' @ [0x67E5, 0x770B, 0x65E5, 0x5FD7] @ ascii '')</a>''"

text \<open>The condition of line 50.\<close>

definition topic_attached :: "world \<Rightarrow> bool" where
  "topic_attached w \<longleftrightarrow>
     (case topic_id w of None \<Rightarrow> False
      | Some t \<Rightarrow> t \<noteq> [] \<and> strip t \<noteq> [] \<and> t \<noteq> ascii ''0'')"

text \<open>
  The dictionary \<^verbatim>\<open>data\<close> as it stands at line 59. \<open>chat_id w\<close> is a string there (line 13
  has excluded \<^verbatim>\<open>None\<close>), so the entry is the map's lookup itself.
\<close>

definition payload :: "world \<Rightarrow> nat \<Rightarrow> (str \<rightharpoonup> str)" where
  "payload w n =
     (let d = Map.empty(ascii ''chat_id'' := chat_id w,
                        ascii ''caption'' := Some (caption w n),
                        ascii ''parse_mode'' := Some (ascii ''HTML''))
      in if topic_attached w then d(ascii ''message_thread_id'' := topic_id w) else d)"

text \<open>Line 52, inside the \<^verbatim>\<open>if\<close> of line 50.\<close>

definition targeting_line :: "world \<Rightarrow> str" where
  "targeting_line w =
     ascii ''Targeting Topic ID: ''
       @ (case topic_id w of None \<Rightarrow> ascii ''None'' | Some t \<Rightarrow> t)"

definition topic_step :: "world \<Rightarrow> step" where
  "topic_step w = (if topic_attached w then py_print w (targeting_line w) else ([], Inr ()))"

text \<open>The call of line 59: the URL, the form fields, the file part and the timeout.\<close>

definition the_request :: "world \<Rightarrow> nat \<Rightarrow> request" where
  "the_request w n =
     \<lparr>url = post_url w, data = payload w n,
      files = [ascii ''document'' \<mapsto> file_path w], timeout = 120\<rparr>"

subsection \<open>The send step (lines 56 to 69)\<close>

definition success_line :: str where
  "success_line = [0x2705] @ ascii '' Yield stored successfully!''"

definition storage_failed_prefix :: str where
  "storage_failed_prefix = [0x274C] @ ascii '' Storage failed: ''"

definition storage_failed_line :: "response \<Rightarrow> str" where
  "storage_failed_line r =
     storage_failed_prefix @ str_int (status_code r) @ ascii '' - '' @ text_of r"

definition transport_error_prefix :: str where
  "transport_error_prefix = [0x274C] @ ascii '' Transport error: ''"

text \<open>
  The body of the \<^verbatim>\<open>try\<close>, lines 57 to 65. The prints of lines 62 and 64 are inside it,
  so what they raise goes to the handler, and after a failed print of line 64 the
  \<^verbatim>\<open>sys.exit(1)\<close> of line 65 is not reached.
\<close>

definition try_body :: "world \<Rightarrow> nat \<Rightarrow> step" where
  "try_body w n =
     (case open_rb w (file_path w) of
        Some e \<Rightarrow> ([Open_call (file_path w)], Inl e)
      | None \<Rightarrow>
          (case post w (the_request w n) of
             Inl e \<Rightarrow> ([Open_call (file_path w), Post_call (the_request w n)], Inl e)
           | Inr r \<Rightarrow>
               then_do ([Open_call (file_path w), Post_call (the_request w n)], Inr ())
                 (if status_code r = 200 then py_print w success_line
                  else then_do (py_print w (storage_failed_line r)) sys_exit_1)))"

text \<open>
  \<^verbatim>\<open>except Exception as e\<close>, lines 67 to 69: only an instance of \<^verbatim>\<open>Exception\<close> is
  handled; anything else the body raised goes on. The handler prints (line 68) and exits
  (line 69); what its own print raises leaves the function.
\<close>

definition send_step :: "world \<Rightarrow> nat \<Rightarrow> step" where
  "send_step w n =
     (case try_body w n of
        (tr, Inl (Exception msg)) \<Rightarrow>
          then_do (tr, Inr ())
            (then_do (py_print w (transport_error_prefix @ msg)) sys_exit_1)
      | (tr, r) \<Rightarrow> (tr, r))"

subsection \<open>The whole function, and the process around it\<close>

definition credentials_error :: str where
  "credentials_error = ascii ''Error: TELEGRAM_BOT_TOKEN or TELEGRAM_CHAT_ID not set.''"

definition no_files_error :: str where
  "no_files_error = ascii ''Error: No grain sacks (zip files) found in output/.''"

definition dispatching_line :: str where
  "dispatching_line = ascii ''Dispatching yield to Granary (Telegram)...''"

definition send_telegram_file :: "world \<Rightarrow> step" where
  "send_telegram_file w =
     (if falsy (bot_token w) \<or> falsy (chat_id w) then
        then_do (py_print w credentials_error) sys_exit_1
      else if files_found w = [] then
        then_do ([Glob_call zip_pattern], Inr ())
          (then_do (py_print w no_files_error) sys_exit_1)
      else
        (case getsize w (file_path w) of
           Inl e \<Rightarrow> ([Glob_call zip_pattern, Getsize_call (file_path w)], Inl e)
         | Inr n \<Rightarrow>
             then_do ([Glob_call zip_pattern, Getsize_call (file_path w)], Inr ())
               (then_do (py_print w (selecting_line w n))
                  (then_do (topic_step w)
                     (then_do (py_print w dispatching_line) (send_step w n))))))"

text \<open>
  Lines 71 and 72: the process ends with status 0 when the function returns and with the
  code of a \<^verbatim>\<open>SystemExit\<close>; any other exception is not caught anywhere and ends the process
  with a traceback.
\<close>

datatype status = Exit int | Traceback py_exception

fun exit_status :: "py_exception + unit \<Rightarrow> status" where
  "exit_status (Inr _) = Exit 0"
| "exit_status (Inl (SystemExit c)) = Exit c"
| "exit_status (Inl e) = Traceback e"

definition trace :: "world \<Rightarrow> event list" where
  "trace w = fst (send_telegram_file w)"

definition process_status :: "world \<Rightarrow> status" where
  "process_status w = exit_status (snd (send_telegram_file w))"

text \<open>What the run printed, in order.\<close>

fun printed :: "event list \<Rightarrow> str list" where
  "printed [] = []"
| "printed (Print s # es) = s # printed es"
| "printed (_ # es) = printed es"

subsection \<open>What a run shows of its control flow\<close>

text \<open>
  For the claim that the size is for display only: an event with the printed text and the
  caption field blanked. What is left is which calls were made, in which order and with which
  other arguments.
\<close>

fun erase :: "event \<Rightarrow> event" where
  "erase (Print s) = Print []"
| "erase (Post_call r) = Post_call (r\<lparr>data := (data r)(ascii ''caption'' := None)\<rparr>)"
| "erase e = e"

subsection \<open>Concrete runs\<close>

text \<open>
  A run with both credentials set, a repository and a run id, one zip file in
  \<^verbatim>\<open>output/\<close>, the given extra arguments, the given file size and the given answer of the
  network, on a standard output that encodes every code point (UTF-8); and the same run on a
  standard output that encodes ASCII only (\<^verbatim>\<open>PYTHONIOENCODING=ascii\<close>).
\<close>

definition example_environ :: "str \<rightharpoonup> str" where
  "example_environ =
     [ascii ''TELEGRAM_BOT_TOKEN'' \<mapsto> ascii ''123:abc'',
      ascii ''TELEGRAM_CHAT_ID'' \<mapsto> ascii ''-1001'',
      ascii ''GITHUB_REPOSITORY'' \<mapsto> ascii ''o/r'',
      ascii ''GITHUB_RUN_ID'' \<mapsto> ascii ''7'']"

definition example_world :: "str list \<Rightarrow> nat \<Rightarrow> py_exception + response \<Rightarrow> world" where
  "example_world args sz answer =
     \<lparr>environ = example_environ,
      argv = ascii ''tg_notify.py'' # args,
      glob = (\<lambda>p. if p = ascii ''output/*.zip'' then [ascii ''output/m.zip''] else []),
      getsize = (\<lambda>p. Inr sz),
      open_rb = (\<lambda>p. None),
      post = (\<lambda>r. answer),
      encodable = (\<lambda>c. True),
      encode_error = (\<lambda>i cs. ascii ''codec cannot encode'')\<rparr>"

definition ascii_stdout :: "world \<Rightarrow> world" where
  "ascii_stdout w =
     w\<lparr>encodable := (\<lambda>c. False),
       encode_error := (\<lambda>i cs. ascii ''ordinal not in range(128)'')\<rparr>"

definition forbidden :: response where
  "forbidden = \<lparr>status_code = 403, text_of = ascii ''Forbidden''\<rparr>"

definition ok_response :: response where
  "ok_response = \<lparr>status_code = 200, text_of = ascii ''{}''\<rparr>"

definition server_error :: response where
  "server_error = \<lparr>status_code = 500, text_of = ascii ''Internal Server Error''\<rparr>"

section \<open>Helper facts\<close>

lemma ascii_eq_iff: "ascii a = ascii b \<longleftrightarrow> a = b"
proof -
  have "inj (of_char :: char \<Rightarrow> nat)"
    by (rule injI) simp
  then show ?thesis
    unfolding ascii_def by (rule inj_map_eq_map)
qed

subsection \<open>Steps and prints\<close>

lemma then_do_returns: "then_do (tr, Inr u) b = (tr @ fst b, snd b)"
  by (simp add: then_do_def)

lemma then_do_raises: "then_do (tr, Inl e) b = (tr, Inl e)"
  by (simp add: then_do_def)

lemma py_print_ok: "can_print w s \<Longrightarrow> py_print w s = ([Print s], Inr ())"
  by (simp add: py_print_def print_error_def)

lemma py_print_fails:
  "\<not> can_print w s \<Longrightarrow>
   py_print w s = ([], Inl (Exception (encode_error w (length (takeWhile (can_encode w) s))
       (takeWhile (\<lambda>c. \<not> can_encode w c) (dropWhile (can_encode w) s)))))"
  by (simp add: py_print_def print_error_def)

lemma py_print_cases:
  "(can_print w s \<and> py_print w s = ([Print s], Inr ())) \<or>
   (\<not> can_print w s \<and> (\<exists>m. py_print w s = ([], Inl (Exception m))))"
  by (cases "can_print w s") (simp_all add: py_print_ok py_print_fails)

lemma can_print_append: "can_print w (a @ b) \<longleftrightarrow> can_print w a \<and> can_print w b"
  by (simp add: can_print_def)

lemma can_print_below_128: "\<forall>c \<in> set s. c < 128 \<Longrightarrow> can_print w s"
  by (simp add: can_print_def can_encode_def list_all_iff)

lemma dec_nat_below_128: "\<forall>c \<in> set (dec_nat n). c < 128"
proof (induction n rule: dec_nat.induct)
  case (1 n)
  show ?case
  proof (cases "n < 10")
    case True
    then show ?thesis by (subst dec_nat.simps) simp
  next
    case False
    have "48 + n mod 10 < 128"
      using mod_less_divisor [of 10 n] by linarith
    with False "1.IH" show ?thesis by (subst dec_nat.simps) simp
  qed
qed

lemma fmt_2f_below_128: "\<forall>c \<in> set (fmt_2f x). c < 128"
proof -
  have "48 + c mod 100 div 10 < 128" and "48 + c mod 10 < 128" for c :: nat
  proof -
    have "c mod 100 div 10 < 10"
      using mod_less_divisor [of 100 c] by simp
    then show "48 + c mod 100 div 10 < 128" by simp
    have "c mod 10 < 10" by simp
    then show "48 + c mod 10 < 128" by linarith
  qed
  then show ?thesis
    using dec_nat_below_128 by (auto simp: fmt_2f_def two_decimals_def)
qed

lemma can_print_fmt_2f: "can_print w (fmt_2f x)"
  using fmt_2f_below_128 by (rule can_print_below_128)

lemma can_print_literals:
  "can_print w credentials_error"
  "can_print w no_files_error"
  "can_print w dispatching_line"
  by (rule can_print_below_128, simp add: credentials_error_def no_files_error_def
      dispatching_line_def ascii_def)+

lemma can_print_selecting_line:
  "can_print w (selecting_line w n) \<longleftrightarrow> can_print w (file_name w)"
proof -
  have "can_print w (ascii ''Selecting yield: '')" "can_print w (ascii '' ('')"
    "can_print w (ascii '' MB)'')"
    by (rule can_print_below_128, simp add: ascii_def)+
  then show ?thesis
    by (simp add: selecting_line_def can_print_append can_print_fmt_2f)
qed

subsection \<open>The shape of a run\<close>

lemma run_without_credentials:
  "falsy (bot_token w) \<or> falsy (chat_id w) \<Longrightarrow>
   send_telegram_file w = ([Print credentials_error], Inl (SystemExit 1))"
  by (simp add: send_telegram_file_def py_print_ok can_print_literals then_do_returns
      sys_exit_1_def)

lemma run_without_files:
  "\<not> falsy (bot_token w) \<Longrightarrow> \<not> falsy (chat_id w) \<Longrightarrow> files_found w = [] \<Longrightarrow>
   send_telegram_file w = ([Glob_call zip_pattern, Print no_files_error], Inl (SystemExit 1))"
  by (simp add: send_telegram_file_def py_print_ok can_print_literals then_do_returns
      sys_exit_1_def)

lemma run_with_size:
  "\<not> falsy (bot_token w) \<Longrightarrow> \<not> falsy (chat_id w) \<Longrightarrow> files_found w \<noteq> [] \<Longrightarrow>
   getsize w (file_path w) = Inr n \<Longrightarrow>
   send_telegram_file w =
     then_do ([Glob_call zip_pattern, Getsize_call (file_path w)], Inr ())
       (then_do (py_print w (selecting_line w n))
          (then_do (topic_step w)
             (then_do (py_print w dispatching_line) (send_step w n))))"
  by (simp add: send_telegram_file_def)

text \<open>The lines printed before the send step, when each of them can be printed.\<close>

lemma topic_step_ok:
  "(topic_attached w \<longrightarrow> can_print w (targeting_line w)) \<Longrightarrow>
   topic_step w = (if topic_attached w then [Print (targeting_line w)] else [], Inr ())"
  by (simp add: topic_step_def py_print_ok)

lemma topic_step_fails:
  "\<not> (topic_attached w \<longrightarrow> can_print w (targeting_line w)) \<Longrightarrow> \<exists>m. topic_step w = ([], Inl (Exception m))"
  using py_print_cases [of w "targeting_line w"]
  by (auto simp: topic_step_def)

lemma run_reaches_send:
  assumes "\<not> falsy (bot_token w)" "\<not> falsy (chat_id w)" "files_found w \<noteq> []"
    and "getsize w (file_path w) = Inr n"
    and "can_print w (file_name w)" and "(topic_attached w \<longrightarrow> can_print w (targeting_line w))"
  shows "send_telegram_file w =
     ([Glob_call zip_pattern, Getsize_call (file_path w), Print (selecting_line w n)]
        @ fst (topic_step w) @ [Print dispatching_line] @ fst (send_step w n),
      snd (send_step w n))"
  using assms
  by (simp add: run_with_size py_print_ok can_print_selecting_line can_print_literals
      then_do_returns topic_step_ok)

lemma run_stops_before_send:
  assumes "\<not> falsy (bot_token w)" "\<not> falsy (chat_id w)" "files_found w \<noteq> []"
    and "getsize w (file_path w) = Inr n"
    and "\<not> (can_print w (file_name w) \<and> (topic_attached w \<longrightarrow> can_print w (targeting_line w)))"
  shows "\<forall>req. Post_call req \<notin> set (fst (send_telegram_file w))"
proof (cases "can_print w (file_name w)")
  case False
  then have "\<not> can_print w (selecting_line w n)"
    by (simp add: can_print_selecting_line)
  with assms(1-4) show ?thesis
    by (simp add: run_with_size py_print_fails then_do_returns then_do_raises)
next
  case True
  with assms(5) obtain m where "topic_step w = ([], Inl (Exception m))"
    using topic_step_fails by blast
  with True assms(1-4) show ?thesis
    by (simp add: run_with_size py_print_ok can_print_selecting_line then_do_returns
        then_do_raises)
qed

subsection \<open>The send step\<close>

lemma try_body_accepted:
  "open_rb w (file_path w) = None \<Longrightarrow> post w (the_request w n) = Inr r \<Longrightarrow>
   status_code r = 200 \<Longrightarrow> can_print w success_line \<Longrightarrow>
   try_body w n =
     ([Open_call (file_path w), Post_call (the_request w n), Print success_line], Inr ())"
  by (simp add: try_body_def py_print_ok then_do_returns)

lemma try_body_rejected:
  "open_rb w (file_path w) = None \<Longrightarrow> post w (the_request w n) = Inr r \<Longrightarrow>
   status_code r \<noteq> 200 \<Longrightarrow> can_print w (storage_failed_line r) \<Longrightarrow>
   try_body w n =
     ([Open_call (file_path w), Post_call (the_request w n), Print (storage_failed_line r)],
      Inl (SystemExit 1))"
  by (simp add: try_body_def py_print_ok then_do_returns sys_exit_1_def)

lemma try_body_print_fails:
  "open_rb w (file_path w) = None \<Longrightarrow> post w (the_request w n) = Inr r \<Longrightarrow>
   \<not> can_print w (if status_code r = 200 then success_line else storage_failed_line r) \<Longrightarrow>
   \<exists>m. try_body w n =
     ([Open_call (file_path w), Post_call (the_request w n)], Inl (Exception m))"
  by (auto simp: try_body_def py_print_fails then_do_returns then_do_raises)

lemma try_body_raises:
  "open_rb w (file_path w) = None \<Longrightarrow> post w (the_request w n) = Inl e \<Longrightarrow>
   try_body w n = ([Open_call (file_path w), Post_call (the_request w n)], Inl e)"
  by (simp add: try_body_def)

lemma send_step_passes:
  "try_body w n = (tr, r) \<Longrightarrow> \<forall>msg. r \<noteq> Inl (Exception msg) \<Longrightarrow> send_step w n = (tr, r)"
  by (auto simp: send_step_def split: sum.splits py_exception.splits)

lemma send_step_caught:
  "try_body w n = (tr, Inl (Exception msg)) \<Longrightarrow> can_print w (transport_error_prefix @ msg) \<Longrightarrow>
   send_step w n = (tr @ [Print (transport_error_prefix @ msg)], Inl (SystemExit 1))"
  by (simp add: send_step_def py_print_ok then_do_returns sys_exit_1_def)

lemma send_step_handler_fails:
  "try_body w n = (tr, Inl (Exception msg)) \<Longrightarrow>
   \<not> can_print w (transport_error_prefix @ msg) \<Longrightarrow>
   \<exists>m. send_step w n = (tr, Inl (Exception m))"
  by (simp add: send_step_def py_print_fails then_do_returns then_do_raises)

lemma post_in_try_body:
  "Post_call req \<in> set (fst (try_body w n)) \<Longrightarrow>
   open_rb w (file_path w) = None \<and> req = the_request w n"
  using py_print_cases [of w success_line] py_print_cases [of w "storage_failed_line r" for r]
  by (auto simp: try_body_def then_do_def sys_exit_1_def py_print_def
      split: option.splits sum.splits if_splits)

lemma events_of_send_step:
  "fst (send_step w n) = fst (try_body w n) \<or>
   (\<exists>s. fst (send_step w n) = fst (try_body w n) @ [Print s])"
proof (cases "try_body w n")
  case (Pair tr r)
  show ?thesis
  proof (cases "\<exists>msg. r = Inl (Exception msg)")
    case True
    then obtain msg where "r = Inl (Exception msg)" by blast
    with Pair show ?thesis
      using send_step_caught [of w n tr msg] send_step_handler_fails [of w n tr msg]
      by (cases "can_print w (transport_error_prefix @ msg)") auto
  next
    case False
    with Pair show ?thesis
      using send_step_passes [of w n tr r] by simp
  qed
qed

lemma post_in_send_step:
  "Post_call req \<in> set (fst (send_step w n)) \<Longrightarrow>
   open_rb w (file_path w) = None \<and> req = the_request w n"
  using events_of_send_step [of w n] post_in_try_body [of req w n] by auto

lemma post_attempted:
  assumes "open_rb w (file_path w) = None"
  shows "Post_call (the_request w n) \<in> set (fst (send_step w n))"
proof -
  have "Post_call (the_request w n) \<in> set (fst (try_body w n))"
    using assms by (auto simp: try_body_def then_do_def split: sum.splits)
  then show ?thesis
    using events_of_send_step [of w n] by auto
qed

subsection \<open>Runs that reach the post\<close>

lemma post_not_in_topic_step: "Post_call req \<notin> set (fst (topic_step w))"
  using py_print_cases [of w "targeting_line w"] by (auto simp: topic_step_def)

lemma post_in_trace:
  assumes "Post_call req \<in> set (trace w)"
  shows "\<not> falsy (bot_token w) \<and> \<not> falsy (chat_id w) \<and> files_found w \<noteq> [] \<and>
         (\<exists>n. getsize w (file_path w) = Inr n \<and> open_rb w (file_path w) = None \<and>
              req = the_request w n \<and>
              send_telegram_file w =
                ([Glob_call zip_pattern, Getsize_call (file_path w), Print (selecting_line w n)]
                   @ fst (topic_step w) @ [Print dispatching_line] @ fst (send_step w n),
                 snd (send_step w n)))"
proof -
  from assms have cred: "\<not> falsy (bot_token w)" "\<not> falsy (chat_id w)"
    using run_without_credentials [of w] by (auto simp: trace_def)
  with assms have files: "files_found w \<noteq> []"
    using run_without_files [of w] by (auto simp: trace_def)
  from assms cred files obtain n where n: "getsize w (file_path w) = Inr n"
    by (cases "getsize w (file_path w)") (auto simp: trace_def send_telegram_file_def)
  from assms have ok: "can_print w (file_name w)"
      "topic_attached w \<longrightarrow> can_print w (targeting_line w)"
    using run_stops_before_send [OF cred files n] by (auto simp: trace_def)
  note run = run_reaches_send [OF cred files n ok]
  with assms have "Post_call req \<in> set (fst (send_step w n))"
    by (simp add: trace_def post_not_in_topic_step)
  then have "open_rb w (file_path w) = None \<and> req = the_request w n"
    by (rule post_in_send_step)
  with cred files n run show ?thesis by blast
qed

lemma glob_in_trace:
  "Glob_call p \<in> set (trace w) \<Longrightarrow> \<not> falsy (bot_token w) \<and> \<not> falsy (chat_id w)"
  using run_without_credentials [of w] by (auto simp: trace_def)

lemma printed_append: "printed (xs @ ys) = printed xs @ printed ys"
  by (induction xs rule: printed.induct) simp_all

lemma printed_topic_step:
  "printed (fst (topic_step w)) = [] \<or> printed (fst (topic_step w)) = [targeting_line w]"
  using py_print_cases [of w "targeting_line w"] by (auto simp: topic_step_def)

text \<open>The concrete runs, evaluated.\<close>

lemma example_credentials:
  "bot_token (example_world a s r) = Some (ascii ''123:abc'')"
  "chat_id (example_world a s r) = Some (ascii ''-1001'')"
  by (simp_all add: bot_token_def chat_id_def example_world_def example_environ_def ascii_eq_iff)

lemma example_env:
  "version (example_world a s r) = ascii ''Unknown''"
  "repo (example_world a s r) = ascii ''o/r''"
  "run_id (example_world a s r) = ascii ''7''"
  "server_url (example_world a s r) = ascii ''https://github.com''"
  by (simp_all add: version_def repo_def run_id_def server_url_def environ_get_def
      example_world_def example_environ_def ascii_eq_iff)

lemma example_files:
  "files_found (example_world a s r) = [ascii ''output/m.zip'']"
  "file_path (example_world a s r) = ascii ''output/m.zip''"
  "getsize (example_world a s r) p = Inr s"
  "open_rb (example_world a s r) p = None"
  "post (example_world a s r) q = r"
  by (simp_all add: files_found_def file_path_def zip_pattern_def example_world_def)

lemma example_can_print: "can_print (example_world a s r) t"
  by (simp add: can_print_def can_encode_def example_world_def list_all_iff)

lemma example_topic: "topic_id (example_world [t] s r) = Some t"
  by (simp add: topic_id_def example_world_def)

lemma example_no_topic: "\<not> topic_attached (example_world [] s r)"
  by (simp add: topic_attached_def topic_id_def example_world_def)

lemma example_label_name:
  "event_label (example_world [] s r) = ascii ''New Yield / '' @ [0x65B0, 0x4EA7, 0x7269]"
  "file_name (example_world a s r) = ascii ''m.zip''"
proof -
  show "event_label (example_world [] s r) = ascii ''New Yield / '' @ [0x65B0, 0x4EA7, 0x7269]"
    by (simp add: event_label_def example_world_def)
  show "file_name (example_world a s r) = ascii ''m.zip''"
    by (simp add: file_name_def example_files basename_def ascii_def)
qed

lemma example_reaches_post:
  "Post_call (the_request (example_world a s r) s) \<in> set (trace (example_world a s r))"
proof -
  let ?w = "example_world a s r"
  have "\<not> falsy (bot_token ?w)" and "\<not> falsy (chat_id ?w)"
    by (simp_all add: example_credentials ascii_def)
  moreover have "files_found ?w \<noteq> []" and "getsize ?w (file_path ?w) = Inr s"
    by (simp_all add: example_files)
  ultimately have "trace ?w =
      [Glob_call zip_pattern, Getsize_call (file_path ?w), Print (selecting_line ?w s)]
        @ fst (topic_step ?w) @ [Print dispatching_line] @ fst (send_step ?w s)"
    by (simp add: trace_def run_reaches_send [of ?w s] example_can_print)
  moreover have "Post_call (the_request ?w s) \<in> set (fst (send_step ?w s))"
    by (rule post_attempted) (simp add: example_files)
  ultimately show ?thesis by simp
qed

text \<open>The same on a standard output that encodes ASCII only.\<close>

lemma ascii_stdout_frame:
  "bot_token (ascii_stdout w) = bot_token w"
  "chat_id (ascii_stdout w) = chat_id w"
  "files_found (ascii_stdout w) = files_found w"
  "file_path (ascii_stdout w) = file_path w"
  "file_name (ascii_stdout w) = file_name w"
  "topic_attached (ascii_stdout w) = topic_attached w"
  "getsize (ascii_stdout w) = getsize w"
  "open_rb (ascii_stdout w) = open_rb w"
  "post (ascii_stdout w) = post w"
  by (simp_all add: ascii_stdout_def bot_token_def chat_id_def files_found_def file_path_def
      file_name_def topic_attached_def topic_id_def)

lemma ascii_stdout_can_print:
  "can_print (ascii_stdout w) s \<longleftrightarrow> (\<forall>c \<in> set s. c < 128)"
  by (simp add: can_print_def can_encode_def ascii_stdout_def list_all_iff)

lemma ascii_stdout_symbols:
  "\<not> can_print (ascii_stdout w) success_line"
  "\<not> can_print (ascii_stdout w) (storage_failed_line r)"
  "\<not> can_print (ascii_stdout w) (transport_error_prefix @ m)"
  by (simp_all add: ascii_stdout_can_print success_line_def storage_failed_line_def
      storage_failed_prefix_def transport_error_prefix_def)

lemma ascii_stdout_reaches_post:
  "Post_call (the_request (ascii_stdout (example_world [] s r)) s)
     \<in> set (trace (ascii_stdout (example_world [] s r)))"
proof -
  let ?w = "ascii_stdout (example_world [] s r)"
  have "\<not> falsy (bot_token ?w)" and "\<not> falsy (chat_id ?w)"
    by (simp_all add: ascii_stdout_frame example_credentials ascii_def)
  moreover have "files_found ?w \<noteq> []" and "getsize ?w (file_path ?w) = Inr s"
    by (simp_all add: ascii_stdout_frame example_files)
  moreover have "can_print ?w (file_name ?w)"
    by (simp add: ascii_stdout_can_print ascii_stdout_frame example_label_name ascii_def)
  moreover have "\<not> topic_attached ?w"
    by (simp add: ascii_stdout_frame example_no_topic)
  ultimately have "trace ?w =
      [Glob_call zip_pattern, Getsize_call (file_path ?w), Print (selecting_line ?w s)]
        @ fst (topic_step ?w) @ [Print dispatching_line] @ fst (send_step ?w s)"
    by (simp add: trace_def run_reaches_send [of ?w s])
  moreover have "Post_call (the_request ?w s) \<in> set (fst (send_step ?w s))"
    by (rule post_attempted) (simp add: ascii_stdout_frame example_files)
  ultimately show ?thesis by simp
qed

section \<open>Pre-flight checks\<close>

text \<open>
  Claim C2. In every run in which the bot token or the chat id is missing from the
  environment, the only thing the run does is print the credentials diagnostic; the process
  exits with status 1, and the trace holds no glob and no post: both come later in the
  function and are never reached.
\<close>

theorem missing_credential_exits_first:
  assumes "environ w (ascii ''TELEGRAM_BOT_TOKEN'') = None \<or>
           environ w (ascii ''TELEGRAM_CHAT_ID'') = None"
  shows "trace w = [Print credentials_error] \<and> process_status w = Exit 1 \<and>
         (\<forall>p. Glob_call p \<notin> set (trace w)) \<and> (\<forall>q. Post_call q \<notin> set (trace w))"
proof -
  from assms have "falsy (bot_token w) \<or> falsy (chat_id w)"
    by (auto simp: bot_token_def chat_id_def)
  then have "send_telegram_file w = ([Print credentials_error], Inl (SystemExit 1))"
    by (rule run_without_credentials)
  then show ?thesis
    by (simp add: trace_def process_status_def)
qed

text \<open>The token is set and the chat id is not.\<close>

theorem missing_credential_exits_first_witness:
  "trace (example_world [] 1 (Inr ok_response)
       \<lparr>environ := example_environ(ascii ''TELEGRAM_CHAT_ID'' := None)\<rparr>)
     = [Print credentials_error] \<and>
   process_status (example_world [] 1 (Inr ok_response)
       \<lparr>environ := example_environ(ascii ''TELEGRAM_CHAT_ID'' := None)\<rparr>) = Exit 1"
  using missing_credential_exits_first [of "example_world [] 1 (Inr ok_response)
      \<lparr>environ := example_environ(ascii ''TELEGRAM_CHAT_ID'' := None)\<rparr>"]
  by simp

text \<open>
  Claim C3. In every run that globs \<^verbatim>\<open>output/*.zip\<close> and finds no file, the run prints
  the no-files diagnostic right after the glob and the process exits with status 1; the trace
  holds no post.
\<close>

theorem no_zip_exits_before_network:
  assumes "Glob_call (ascii ''output/*.zip'') \<in> set (trace w)"
    and "glob w (ascii ''output/*.zip'') = []"
  shows "trace w = [Glob_call (ascii ''output/*.zip''), Print no_files_error] \<and>
         process_status w = Exit 1 \<and> (\<forall>q. Post_call q \<notin> set (trace w))"
proof -
  from assms(1) have "\<not> falsy (bot_token w)" and "\<not> falsy (chat_id w)"
    using glob_in_trace by blast+
  moreover from assms(2) have "files_found w = []"
    by (simp add: files_found_def zip_pattern_def)
  ultimately have
    "send_telegram_file w = ([Glob_call zip_pattern, Print no_files_error], Inl (SystemExit 1))"
    by (rule run_without_files)
  then show ?thesis
    by (simp add: trace_def process_status_def zip_pattern_def)
qed

theorem no_zip_exits_before_network_witness:
  "trace (example_world [] 1 (Inr ok_response)\<lparr>glob := \<lambda>p. []\<rparr>)
     = [Glob_call (ascii ''output/*.zip''), Print no_files_error] \<and>
   process_status (example_world [] 1 (Inr ok_response)\<lparr>glob := \<lambda>p. []\<rparr>) = Exit 1"
proof -
  let ?w = "example_world [] 1 (Inr ok_response)\<lparr>glob := \<lambda>p. []\<rparr>"
  have cred: "\<not> falsy (bot_token ?w)" "\<not> falsy (chat_id ?w)"
    by (simp_all add: bot_token_def chat_id_def example_world_def example_environ_def
        ascii_eq_iff ascii_def)
  have "files_found ?w = []"
    by (simp add: files_found_def)
  with cred have "Glob_call (ascii ''output/*.zip'') \<in> set (trace ?w)"
    by (simp add: trace_def run_without_files zip_pattern_def)
  moreover have "glob ?w (ascii ''output/*.zip'') = []"
    by simp
  ultimately show ?thesis
    using no_zip_exits_before_network [of ?w] by simp
qed

text \<open>
  Claim C9. A bot token or chat id that is set to the empty string is treated as one that is
  not set: the run is the same, event for event and result for result, as the run in which
  the variable is removed from the environment, namely the credentials diagnostic and exit
  status 1, with nothing else done.
\<close>

theorem empty_credential_as_absent:
  assumes "v = ascii ''TELEGRAM_BOT_TOKEN'' \<or> v = ascii ''TELEGRAM_CHAT_ID''"
    and "environ w v = Some []"
  shows "send_telegram_file w = send_telegram_file (w\<lparr>environ := (environ w)(v := None)\<rparr>) \<and>
         trace w = [Print credentials_error] \<and> process_status w = Exit 1"
proof -
  let ?w' = "w\<lparr>environ := (environ w)(v := None)\<rparr>"
  from assms have "falsy (bot_token w) \<or> falsy (chat_id w)"
    by (auto simp: bot_token_def chat_id_def)
  then have run: "send_telegram_file w = ([Print credentials_error], Inl (SystemExit 1))"
    by (rule run_without_credentials)
  from assms(1) have "falsy (bot_token ?w') \<or> falsy (chat_id ?w')"
    by (auto simp: bot_token_def chat_id_def)
  then have "send_telegram_file ?w' = ([Print credentials_error], Inl (SystemExit 1))"
    by (rule run_without_credentials)
  with run show ?thesis
    by (simp add: trace_def process_status_def)
qed

theorem empty_credential_as_absent_witness:
  "send_telegram_file (example_world [] 1 (Inr ok_response)
       \<lparr>environ := example_environ(ascii ''TELEGRAM_CHAT_ID'' \<mapsto> [])\<rparr>)
     = send_telegram_file (example_world [] 1 (Inr ok_response)
       \<lparr>environ := example_environ(ascii ''TELEGRAM_CHAT_ID'' := None)\<rparr>) \<and>
   process_status (example_world [] 1 (Inr ok_response)
       \<lparr>environ := example_environ(ascii ''TELEGRAM_CHAT_ID'' \<mapsto> [])\<rparr>) = Exit 1"
  using empty_credential_as_absent [of "ascii ''TELEGRAM_CHAT_ID''"
      "example_world [] 1 (Inr ok_response)
         \<lparr>environ := example_environ(ascii ''TELEGRAM_CHAT_ID'' \<mapsto> [])\<rparr>"]
  by simp

section \<open>The send step\<close>

lemma str_int_403: "str_int 403 = ascii ''403''"
  by (simp add: str_int_def dec_nat.simps ascii_def)

lemma str_int_500: "str_int 500 = ascii ''500''"
  by (simp add: str_int_def dec_nat.simps ascii_def)

lemma not_diagnostic_lines:
  "\<not> prefix storage_failed_prefix (selecting_line w n)"
  "\<not> prefix transport_error_prefix (selecting_line w n)"
  "\<not> prefix storage_failed_prefix (targeting_line w)"
  "\<not> prefix transport_error_prefix (targeting_line w)"
  "\<not> prefix storage_failed_prefix dispatching_line"
  "\<not> prefix transport_error_prefix dispatching_line"
  "\<not> prefix transport_error_prefix (storage_failed_line r)"
  "prefix storage_failed_prefix (storage_failed_line r)"
  by (simp_all add: storage_failed_prefix_def transport_error_prefix_def selecting_line_def
      targeting_line_def dispatching_line_def storage_failed_line_def ascii_def)

lemma no_diagnostic_in_topic_step:
  "filter (prefix storage_failed_prefix) (printed (fst (topic_step w))) = []"
  "filter (prefix transport_error_prefix) (printed (fst (topic_step w))) = []"
  using printed_topic_step [of w] by (auto simp: not_diagnostic_lines)

lemma printed_rejected_run:
  assumes "Post_call req \<in> set (trace w)" and "post w req = Inr r"
    and "status_code r \<noteq> 200" and "can_print w (storage_failed_line r)"
  shows "\<exists>n. getsize w (file_path w) = Inr n \<and>
           try_body w n = ([Open_call (file_path w), Post_call req,
                            Print (storage_failed_line r)], Inl (SystemExit 1)) \<and>
           send_step w n = try_body w n \<and>
           snd (send_telegram_file w) = Inl (SystemExit 1) \<and>
           printed (trace w) = [selecting_line w n] @ printed (fst (topic_step w))
              @ [dispatching_line, storage_failed_line r]"
proof -
  from post_in_trace [OF assms(1)] obtain n where
    n: "getsize w (file_path w) = Inr n" and op: "open_rb w (file_path w) = None"
    and req: "req = the_request w n"
    and run: "send_telegram_file w =
      ([Glob_call zip_pattern, Getsize_call (file_path w), Print (selecting_line w n)]
         @ fst (topic_step w) @ [Print dispatching_line] @ fst (send_step w n),
       snd (send_step w n))"
    by blast
  from op assms(2-4) req have body:
    "try_body w n = ([Open_call (file_path w), Post_call req,
                      Print (storage_failed_line r)], Inl (SystemExit 1))"
    using try_body_rejected [of w n r] by simp
  then have step: "send_step w n = try_body w n"
    by (simp add: send_step_passes)
  from n step body run show ?thesis
    by (simp add: trace_def printed_append)
qed

text \<open>
  The example run on a standard output that encodes ASCII only: whatever the network
  answers with (a response or an instance of \<^verbatim>\<open>Exception\<close>), the line the send step wants to
  print starts with a symbol that cannot be encoded, the print raises, the handler's own
  print raises too, and that last exception leaves the function. Nothing is printed after
  the dispatching line.
\<close>

lemma ascii_stdout_py_print:
  "\<not> can_print (ascii_stdout w) s \<Longrightarrow>
   py_print (ascii_stdout w) s = ([], Inl (Exception (ascii ''ordinal not in range(128)'')))"
  by (simp add: py_print_fails) (simp add: ascii_stdout_def)

lemma ascii_stdout_try_body:
  assumes "answer = Inr r \<or> answer = Inl (Exception msg)"
  shows "\<exists>m. try_body (ascii_stdout (example_world [] s answer)) s =
     ([Open_call (file_path (ascii_stdout (example_world [] s answer))),
       Post_call (the_request (ascii_stdout (example_world [] s answer)) s)],
      Inl (Exception m))"
  using assms
  by (auto simp: try_body_def ascii_stdout_frame example_files then_do_returns then_do_raises
      ascii_stdout_py_print ascii_stdout_symbols)

lemma ascii_stdout_send_step:
  assumes "answer = Inr r \<or> answer = Inl (Exception msg)"
  shows "send_step (ascii_stdout (example_world [] s answer)) s =
     ([Open_call (file_path (ascii_stdout (example_world [] s answer))),
       Post_call (the_request (ascii_stdout (example_world [] s answer)) s)],
      Inl (Exception (ascii ''ordinal not in range(128)'')))"
proof -
  from ascii_stdout_try_body [OF assms] obtain m where
    "try_body (ascii_stdout (example_world [] s answer)) s =
     ([Open_call (file_path (ascii_stdout (example_world [] s answer))),
       Post_call (the_request (ascii_stdout (example_world [] s answer)) s)],
      Inl (Exception m))"
    by blast
  then show ?thesis
    by (simp add: send_step_def then_do_returns then_do_raises ascii_stdout_py_print
        ascii_stdout_symbols)
qed

lemma ascii_stdout_run:
  assumes "answer = Inr r \<or> answer = Inl (Exception msg)"
  shows "printed (trace (ascii_stdout (example_world [] s answer)))
           = [selecting_line (ascii_stdout (example_world [] s answer)) s, dispatching_line] \<and>
         snd (send_telegram_file (ascii_stdout (example_world [] s answer)))
           = Inl (Exception (ascii ''ordinal not in range(128)''))"
proof -
  let ?w = "ascii_stdout (example_world [] s answer)"
  from post_in_trace [OF ascii_stdout_reaches_post [where s = s and r = answer]] obtain n where
    n: "getsize ?w (file_path ?w) = Inr n"
    and run: "send_telegram_file ?w =
      ([Glob_call zip_pattern, Getsize_call (file_path ?w), Print (selecting_line ?w n)]
         @ fst (topic_step ?w) @ [Print dispatching_line] @ fst (send_step ?w n),
       snd (send_step ?w n))"
    by blast
  from n have "n = s"
    by (simp add: ascii_stdout_frame example_files)
  moreover have "fst (topic_step ?w) = []"
    by (simp add: topic_step_def ascii_stdout_frame example_no_topic)
  ultimately show ?thesis
    using run ascii_stdout_send_step [OF assms, where s = s]
    by (simp add: trace_def printed_append)
qed

text \<open>
  Claim C1 says that every run that reaches the post exits with status 0 and prints the
  success message when the response's status code is 200. The success line of line 62 starts
  with U+2705. On a standard output that encodes ASCII only the print raises
  \<^verbatim>\<open>UnicodeEncodeError\<close> inside the \<^verbatim>\<open>try\<close>, the handler's print (U+274C) raises again, and
  the run ends with that exception: the status code is 200, no success line is printed and
  the process does not exit with status 0.
\<close>

theorem success_line_not_encodable:
  "Post_call (the_request (ascii_stdout (example_world [] 2097152 (Inr ok_response))) 2097152)
     \<in> set (trace (ascii_stdout (example_world [] 2097152 (Inr ok_response)))) \<and>
   post (ascii_stdout (example_world [] 2097152 (Inr ok_response)))
     (the_request (ascii_stdout (example_world [] 2097152 (Inr ok_response))) 2097152)
     = Inr ok_response \<and>
   status_code ok_response = 200 \<and>
   process_status (ascii_stdout (example_world [] 2097152 (Inr ok_response)))
     = Traceback (Exception (ascii ''ordinal not in range(128)'')) \<and>
   process_status (ascii_stdout (example_world [] 2097152 (Inr ok_response))) \<noteq> Exit 0 \<and>
   success_line
     \<notin> set (printed (trace (ascii_stdout (example_world [] 2097152 (Inr ok_response)))))"
proof -
  let ?w = "ascii_stdout (example_world [] 2097152 (Inr ok_response))"
  have "success_line \<noteq> selecting_line ?w 2097152" and "success_line \<noteq> dispatching_line"
    by (simp_all add: success_line_def selecting_line_def dispatching_line_def ascii_def)
  moreover have "post ?w (the_request ?w 2097152) = Inr ok_response"
    by (simp add: ascii_stdout_frame example_files)
  moreover have "status_code ok_response = 200"
    by (simp add: ok_response_def)
  ultimately show ?thesis
    using ascii_stdout_run [where answer = "Inr ok_response" and r = ok_response and s = 2097152]
      ascii_stdout_reaches_post [where s = 2097152 and r = "Inr ok_response"]
    by (simp add: process_status_def)
qed

text \<open>
  Claim C1, amended. In every run that posts and gets a response, and whose standard output
  can encode the line the run then prints (the line of line 62 for status code 200, the line
  of line 64 otherwise), the process exits with status 0 and has printed the success line
  exactly when the response's status code is 200; for every other status code it exits with
  status 1 and has printed a line that contains the status code in decimal and the text of
  the response.
\<close>

theorem status_200_iff_success:
  assumes "Post_call req \<in> set (trace w)" and "post w req = Inr r"
    and "can_print w (if status_code r = 200 then success_line else storage_failed_line r)"
  shows "((process_status w = Exit 0 \<and>
           [0x2705] @ ascii '' Yield stored successfully!'' \<in> set (printed (trace w)))
            \<longleftrightarrow> status_code r = 200) \<and>
         (status_code r \<noteq> 200 \<longrightarrow>
            process_status w = Exit 1 \<and>
            (\<exists>line \<in> set (printed (trace w)).
               sublist (str_int (status_code r)) line \<and> sublist (text_of r) line))"
proof -
  from post_in_trace [OF assms(1)] obtain n where
    n: "getsize w (file_path w) = Inr n" and op: "open_rb w (file_path w) = None"
    and req: "req = the_request w n"
    and run: "send_telegram_file w =
      ([Glob_call zip_pattern, Getsize_call (file_path w), Print (selecting_line w n)]
         @ fst (topic_step w) @ [Print dispatching_line] @ fst (send_step w n),
       snd (send_step w n))"
    by blast
  show ?thesis
  proof (cases "status_code r = 200")
    case True
    with op assms(2,3) req have
      "try_body w n = ([Open_call (file_path w), Post_call req, Print success_line], Inr ())"
      using try_body_accepted [of w n r] by simp
    then have "send_step w n =
        ([Open_call (file_path w), Post_call req, Print success_line], Inr ())"
      by (simp add: send_step_passes)
    with True run show ?thesis
      by (simp add: process_status_def trace_def printed_append success_line_def)
  next
    case False
    from printed_rejected_run [OF assms(1,2) False] assms(3) False
    have "snd (send_telegram_file w) = Inl (SystemExit 1)"
      and "storage_failed_line r \<in> set (printed (trace w))"
      by auto
    moreover have "sublist (str_int (status_code r)) (storage_failed_line r)"
      unfolding storage_failed_line_def by (rule sublist_appendI)
    moreover have "sublist (text_of r) (storage_failed_line r)"
      unfolding storage_failed_line_def by (simp add: append_assoc [symmetric] del: append_assoc)
    ultimately show ?thesis
      using False by (auto simp: process_status_def)
  qed
qed

text \<open>
  Status 200 gives exit status 0 and the success line; status 403 with the text
  \<^verbatim>\<open>Forbidden\<close> and status 500 with the text \<^verbatim>\<open>Internal Server Error\<close> give exit status 1
  and a line that contains both the code and the text.
\<close>

theorem status_200_iff_success_witness:
  "process_status (example_world [] 2097152 (Inr ok_response)) = Exit 0 \<and>
   [0x2705] @ ascii '' Yield stored successfully!''
     \<in> set (printed (trace (example_world [] 2097152 (Inr ok_response)))) \<and>
   process_status (example_world [] 2097152 (Inr forbidden)) = Exit 1 \<and>
   (\<exists>line \<in> set (printed (trace (example_world [] 2097152 (Inr forbidden)))).
      sublist (ascii ''403'') line \<and> sublist (ascii ''Forbidden'') line) \<and>
   process_status (example_world [] 2097152 (Inr server_error)) = Exit 1 \<and>
   (\<exists>line \<in> set (printed (trace (example_world [] 2097152 (Inr server_error)))).
      sublist (ascii ''500'') line \<and> sublist (ascii ''Internal Server Error'') line)"
proof -
  let ?ok = "example_world [] 2097152 (Inr ok_response)"
  let ?no = "example_world [] 2097152 (Inr forbidden)"
  let ?err = "example_world [] 2097152 (Inr server_error)"
  have "post ?ok (the_request ?ok 2097152) = Inr ok_response"
    by (simp add: example_files)
  from status_200_iff_success [OF example_reaches_post this example_can_print]
  have ok: "process_status ?ok = Exit 0 \<and>
      [0x2705] @ ascii '' Yield stored successfully!'' \<in> set (printed (trace ?ok))"
    by (simp add: ok_response_def)
  have "post ?no (the_request ?no 2097152) = Inr forbidden"
    by (simp add: example_files)
  from status_200_iff_success [OF example_reaches_post this example_can_print]
  have no: "process_status ?no = Exit 1 \<and>
        (\<exists>line \<in> set (printed (trace ?no)).
           sublist (ascii ''403'') line \<and> sublist (ascii ''Forbidden'') line)"
    by (simp add: forbidden_def str_int_403)
  have "post ?err (the_request ?err 2097152) = Inr server_error"
    by (simp add: example_files)
  from status_200_iff_success [OF example_reaches_post this example_can_print]
  have "process_status ?err = Exit 1 \<and>
        (\<exists>line \<in> set (printed (trace ?err)).
           sublist (ascii ''500'') line \<and> sublist (ascii ''Internal Server Error'') line)"
    by (simp add: server_error_def str_int_500)
  with ok no show ?thesis by blast
qed

text \<open>
  Claim C10 says that on every response whose status code is not 200 the \<^verbatim>\<open>SystemExit\<close> of
  line 65 passes the handler and the remote-rejection diagnostic is printed exactly once. The
  diagnostic of line 64 starts with U+274C. On a standard output that encodes ASCII only its
  print raises inside the \<^verbatim>\<open>try\<close>, so line 65 is not reached: the \<^verbatim>\<open>try\<close> body leaves with
  \<^verbatim>\<open>UnicodeEncodeError\<close> and not with \<^verbatim>\<open>SystemExit\<close>, the handler takes that exception, and no
  storage-failure line is printed.
\<close>

theorem rejection_line_not_encodable:
  "Post_call (the_request (ascii_stdout (example_world [] 2097152 (Inr forbidden))) 2097152)
     \<in> set (trace (ascii_stdout (example_world [] 2097152 (Inr forbidden)))) \<and>
   post (ascii_stdout (example_world [] 2097152 (Inr forbidden)))
     (the_request (ascii_stdout (example_world [] 2097152 (Inr forbidden))) 2097152)
     = Inr forbidden \<and>
   status_code forbidden \<noteq> 200 \<and>
   snd (try_body (ascii_stdout (example_world [] 2097152 (Inr forbidden))) 2097152)
     \<noteq> Inl (SystemExit 1) \<and>
   filter (prefix storage_failed_prefix)
     (printed (trace (ascii_stdout (example_world [] 2097152 (Inr forbidden))))) = [] \<and>
   process_status (ascii_stdout (example_world [] 2097152 (Inr forbidden)))
     = Traceback (Exception (ascii ''ordinal not in range(128)''))"
proof -
  let ?w = "ascii_stdout (example_world [] 2097152 (Inr forbidden))"
  have "post ?w (the_request ?w 2097152) = Inr forbidden"
    by (simp add: ascii_stdout_frame example_files)
  moreover have "status_code forbidden \<noteq> 200"
    by (simp add: forbidden_def)
  moreover have "snd (try_body ?w 2097152) \<noteq> Inl (SystemExit 1)"
    using ascii_stdout_try_body [where answer = "Inr forbidden" and r = forbidden
        and s = 2097152]
    by auto
  ultimately show ?thesis
    using ascii_stdout_run [where answer = "Inr forbidden" and r = forbidden and s = 2097152]
      ascii_stdout_reaches_post [where s = 2097152 and r = "Inr forbidden"]
    by (simp add: process_status_def not_diagnostic_lines)
qed

text \<open>
  Claim C10, amended. On a response whose status code is not 200, when standard output can
  encode the diagnostic of line 64, the \<^verbatim>\<open>try\<close> body leaves with \<^verbatim>\<open>SystemExit(1)\<close>, and the
  handler \<^verbatim>\<open>except Exception\<close> does not take it: the send step ends as its body did. So
  exactly one printed line is a storage-failure diagnostic, the one for this response, no
  printed line is a transport-error diagnostic, and the process exits with status 1.
\<close>

theorem rejection_exit_passes_handler:
  assumes "Post_call req \<in> set (trace w)" and "post w req = Inr r"
    and "status_code r \<noteq> 200" and "can_print w (storage_failed_line r)"
  shows "(\<exists>n. getsize w (file_path w) = Inr n \<and> snd (try_body w n) = Inl (SystemExit 1) \<and>
              send_step w n = try_body w n) \<and>
         filter (prefix storage_failed_prefix) (printed (trace w)) = [storage_failed_line r] \<and>
         filter (prefix transport_error_prefix) (printed (trace w)) = [] \<and>
         process_status w = Exit 1"
proof -
  from printed_rejected_run [OF assms] obtain n where
    n: "getsize w (file_path w) = Inr n"
    and body: "try_body w n = ([Open_call (file_path w), Post_call req,
                                Print (storage_failed_line r)], Inl (SystemExit 1))"
    and step: "send_step w n = try_body w n"
    and res: "snd (send_telegram_file w) = Inl (SystemExit 1)"
    and pr: "printed (trace w) = [selecting_line w n] @ printed (fst (topic_step w))
               @ [dispatching_line, storage_failed_line r]"
    by blast
  from body have "snd (try_body w n) = Inl (SystemExit 1)"
    by simp
  with n step have first: "\<exists>n. getsize w (file_path w) = Inr n \<and>
      snd (try_body w n) = Inl (SystemExit 1) \<and> send_step w n = try_body w n"
    by blast
  have "filter (prefix storage_failed_prefix) (printed (trace w)) = [storage_failed_line r]"
    unfolding pr by (simp add: no_diagnostic_in_topic_step not_diagnostic_lines)
  moreover have "filter (prefix transport_error_prefix) (printed (trace w)) = []"
    unfolding pr by (simp add: no_diagnostic_in_topic_step not_diagnostic_lines)
  moreover from res have "process_status w = Exit 1"
    by (simp add: process_status_def)
  ultimately show ?thesis
    using first by blast
qed

theorem rejection_exit_passes_handler_witness:
  "filter (prefix storage_failed_prefix)
       (printed (trace (example_world [] 2097152 (Inr forbidden))))
     = [[0x274C] @ ascii '' Storage failed: 403 - Forbidden''] \<and>
   filter (prefix transport_error_prefix)
       (printed (trace (example_world [] 2097152 (Inr forbidden)))) = [] \<and>
   process_status (example_world [] 2097152 (Inr forbidden)) = Exit 1"
proof -
  let ?no = "example_world [] 2097152 (Inr forbidden)"
  have "post ?no (the_request ?no 2097152) = Inr forbidden"
    by (simp add: example_files)
  moreover have "status_code forbidden \<noteq> 200"
    by (simp add: forbidden_def)
  moreover have "storage_failed_line forbidden = [0x274C] @ ascii '' Storage failed: 403 - Forbidden''"
    by (simp add: storage_failed_line_def storage_failed_prefix_def forbidden_def str_int_403
        ascii_def)
  ultimately show ?thesis
    using rejection_exit_passes_handler [OF example_reaches_post _ _ example_can_print]
    by auto
qed

lemma send_step_exception_only_from_handler:
  assumes "snd (send_step w n) = Inl (Exception m)"
  shows "\<exists>msg. snd (try_body w n) = Inl (Exception msg) \<and>
           \<not> can_print w (transport_error_prefix @ msg)"
proof (cases "try_body w n")
  case (Pair tr r)
  show ?thesis
  proof (cases "\<exists>msg. r = Inl (Exception msg)")
    case True
    then obtain msg where r: "r = Inl (Exception msg)" by blast
    have "\<not> can_print w (transport_error_prefix @ msg)"
    proof
      assume "can_print w (transport_error_prefix @ msg)"
      with Pair r have "snd (send_step w n) = Inl (SystemExit 1)"
        by (simp add: send_step_caught)
      with assms show False by simp
    qed
    with Pair r show ?thesis by simp
  next
    case False
    with Pair have "send_step w n = (tr, r)"
      by (simp add: send_step_passes)
    with assms False show ?thesis by simp
  qed
qed

text \<open>
  Claim C5 says that every exception the network call raises is caught, reported and turned
  into exit status 1, and that no exception of the send step escapes. The handler is
  \<^verbatim>\<open>except Exception\<close>, so that fails for an exception outside class \<^verbatim>\<open>Exception\<close>: when
  \<^verbatim>\<open>requests.post\<close> is interrupted (\<^verbatim>\<open>KeyboardInterrupt\<close>), the exception leaves the
  function, no transport-error line is printed and the process does not end through
  \<^verbatim>\<open>sys.exit(1)\<close>. It also fails for an instance of \<^verbatim>\<open>Exception\<close> when standard output
  cannot encode the handler's line, which starts with U+274C: on a standard output that
  encodes ASCII only a timeout is caught, the print of line 68 raises
  \<^verbatim>\<open>UnicodeEncodeError\<close>, no transport-error line is printed and that exception leaves the
  send step.
\<close>

theorem interrupt_escapes_handler:
  "Post_call (the_request (example_world [] 2097152 (Inl KeyboardInterrupt)) 2097152)
     \<in> set (trace (example_world [] 2097152 (Inl KeyboardInterrupt))) \<and>
   post (example_world [] 2097152 (Inl KeyboardInterrupt))
     (the_request (example_world [] 2097152 (Inl KeyboardInterrupt)) 2097152)
     = Inl KeyboardInterrupt \<and>
   snd (send_telegram_file (example_world [] 2097152 (Inl KeyboardInterrupt)))
     = Inl KeyboardInterrupt \<and>
   process_status (example_world [] 2097152 (Inl KeyboardInterrupt))
     = Traceback KeyboardInterrupt \<and>
   process_status (example_world [] 2097152 (Inl KeyboardInterrupt)) \<noteq> Exit 1 \<and>
   filter (prefix transport_error_prefix)
     (printed (trace (example_world [] 2097152 (Inl KeyboardInterrupt)))) = [] \<and>
   Post_call (the_request
       (ascii_stdout (example_world [] 2097152 (Inl (Exception (ascii ''timed out''))))) 2097152)
     \<in> set (trace
       (ascii_stdout (example_world [] 2097152 (Inl (Exception (ascii ''timed out'')))))) \<and>
   post (ascii_stdout (example_world [] 2097152 (Inl (Exception (ascii ''timed out'')))))
     (the_request
       (ascii_stdout (example_world [] 2097152 (Inl (Exception (ascii ''timed out''))))) 2097152)
     = Inl (Exception (ascii ''timed out'')) \<and>
   snd (send_step
       (ascii_stdout (example_world [] 2097152 (Inl (Exception (ascii ''timed out''))))) 2097152)
     = Inl (Exception (ascii ''ordinal not in range(128)'')) \<and>
   filter (prefix transport_error_prefix)
     (printed (trace
       (ascii_stdout (example_world [] 2097152 (Inl (Exception (ascii ''timed out''))))))) = []"
proof -
  let ?w = "example_world [] 2097152 (Inl KeyboardInterrupt)"
  let ?a = "ascii_stdout (example_world [] 2097152 (Inl (Exception (ascii ''timed out''))))"
  from post_in_trace [OF example_reaches_post [of "[]" 2097152 "Inl KeyboardInterrupt"]]
  obtain n where n: "getsize ?w (file_path ?w) = Inr n"
    and run: "send_telegram_file ?w =
      ([Glob_call zip_pattern, Getsize_call (file_path ?w), Print (selecting_line ?w n)]
         @ fst (topic_step ?w) @ [Print dispatching_line] @ fst (send_step ?w n),
       snd (send_step ?w n))"
    by blast
  have "try_body ?w n =
      ([Open_call (file_path ?w), Post_call (the_request ?w n)], Inl KeyboardInterrupt)"
    by (rule try_body_raises) (simp_all add: example_files)
  then have step: "send_step ?w n =
      ([Open_call (file_path ?w), Post_call (the_request ?w n)], Inl KeyboardInterrupt)"
    by (simp add: send_step_passes)
  have interrupt: "snd (send_telegram_file ?w) = Inl KeyboardInterrupt"
    by (simp add: run step)
  have quiet: "filter (prefix transport_error_prefix) (printed (trace ?w)) = []"
    by (simp add: trace_def run step printed_append no_diagnostic_in_topic_step
        not_diagnostic_lines)
  have post_w: "post ?w (the_request ?w 2097152) = Inl KeyboardInterrupt"
    by (simp add: example_files)
  have post_a: "post ?a (the_request ?a 2097152) = Inl (Exception (ascii ''timed out''))"
    by (simp add: ascii_stdout_frame example_files)
  have step_a: "snd (send_step ?a 2097152) = Inl (Exception (ascii ''ordinal not in range(128)''))"
    using ascii_stdout_send_step [where answer = "Inl (Exception (ascii ''timed out''))"
        and msg = "ascii ''timed out''" and s = 2097152]
    by simp
  have quiet_a: "filter (prefix transport_error_prefix) (printed (trace ?a)) = []"
    using ascii_stdout_run [where answer = "Inl (Exception (ascii ''timed out''))"
        and msg = "ascii ''timed out''" and s = 2097152]
    by (simp add: not_diagnostic_lines)
  from interrupt quiet post_w post_a step_a quiet_a show ?thesis
    using example_reaches_post [of "[]" 2097152 "Inl KeyboardInterrupt"]
      ascii_stdout_reaches_post [where s = 2097152
        and r = "Inl (Exception (ascii ''timed out''))"]
    by (simp add: process_status_def)
qed

text \<open>
  Claim C5, amended. In every run in which the network call raises an instance of class
  \<^verbatim>\<open>Exception\<close> (a connection failure, a timeout) and standard output can encode the
  handler's line, the exception is caught: the last line printed is the transport-error
  diagnostic, which ends with the exception's message, and the process exits with status 1.
  An instance of \<^verbatim>\<open>Exception\<close> leaves the send step only as the error of the handler's own
  print.
\<close>

theorem transport_exception_caught:
  assumes "Post_call req \<in> set (trace w)" and "post w req = Inl (Exception msg)"
    and "can_print w (transport_error_prefix @ msg)"
  shows "snd (send_telegram_file w) = Inl (SystemExit 1) \<and> process_status w = Exit 1 \<and>
         last (printed (trace w)) = transport_error_prefix @ msg \<and>
         sublist msg (last (printed (trace w))) \<and>
         (\<forall>n m. snd (send_step w n) = Inl (Exception m) \<longrightarrow>
            (\<exists>msg'. snd (try_body w n) = Inl (Exception msg') \<and>
                   \<not> can_print w (transport_error_prefix @ msg')))"
proof -
  from post_in_trace [OF assms(1)] obtain n where
    n: "getsize w (file_path w) = Inr n" and op: "open_rb w (file_path w) = None"
    and req: "req = the_request w n"
    and run: "send_telegram_file w =
      ([Glob_call zip_pattern, Getsize_call (file_path w), Print (selecting_line w n)]
         @ fst (topic_step w) @ [Print dispatching_line] @ fst (send_step w n),
       snd (send_step w n))"
    by blast
  from op assms(2) req have
    "try_body w n = ([Open_call (file_path w), Post_call req], Inl (Exception msg))"
    using try_body_raises [of w n "Exception msg"] by simp
  from send_step_caught [OF this assms(3)]
  have step: "send_step w n =
      ([Open_call (file_path w), Post_call req, Print (transport_error_prefix @ msg)],
       Inl (SystemExit 1))"
    by simp
  have res: "snd (send_telegram_file w) = Inl (SystemExit 1)"
    by (simp add: run step)
  have "printed (trace w) = ([selecting_line w n] @ printed (fst (topic_step w))
          @ [dispatching_line]) @ [transport_error_prefix @ msg]"
    by (simp add: trace_def run step printed_append)
  then have l: "last (printed (trace w)) = transport_error_prefix @ msg"
    by (simp only: last_snoc)
  from res l show ?thesis
    using send_step_exception_only_from_handler [of w]
    by (auto simp: process_status_def)
qed

theorem transport_exception_caught_witness:
  "process_status (example_world [] 2097152 (Inl (Exception (ascii ''timed out'')))) = Exit 1 \<and>
   last (printed (trace (example_world [] 2097152 (Inl (Exception (ascii ''timed out''))))))
     = [0x274C] @ ascii '' Transport error: timed out''"
proof -
  let ?w = "example_world [] 2097152 (Inl (Exception (ascii ''timed out'')))"
  have "post ?w (the_request ?w 2097152) = Inl (Exception (ascii ''timed out''))"
    by (simp add: example_files)
  from transport_exception_caught [OF example_reaches_post this example_can_print]
  show ?thesis
    by (simp add: transport_error_prefix_def ascii_def)
qed

section \<open>The payload\<close>

lemma strip_empty_iff: "strip t = [] \<longleftrightarrow> (\<forall>c \<in> set t. py_isspace c)"
proof
  assume "strip t = []"
  then have "\<forall>c \<in> set (dropWhile py_isspace t). py_isspace c"
    by (simp add: strip_def)
  then have "dropWhile py_isspace t = []"
    by (metis hd_dropWhile hd_in_set)
  then show "\<forall>c \<in> set t. py_isspace c"
    by simp
next
  assume "\<forall>c \<in> set t. py_isspace c"
  then have d: "dropWhile py_isspace t = []"
    by simp
  show "strip t = []"
    by (simp add: strip_def d)
qed

lemma thread_key_in_payload:
  "ascii ''message_thread_id'' \<in> dom (payload w n) \<longleftrightarrow> topic_attached w"
  by (auto simp: payload_def topic_attached_def ascii_eq_iff split: option.splits if_splits)

lemma thread_value_in_payload:
  "topic_attached w \<Longrightarrow> payload w n (ascii ''message_thread_id'') = topic_id w"
  by (simp add: payload_def)

text \<open>
  Claim C4. In every run that posts, the form data has the field \<^verbatim>\<open>message_thread_id\<close>
  exactly when a topic id was given on the command line, is not blank after stripping and is
  not the string \<^verbatim>\<open>0\<close>. In particular the field is absent for the empty string, for
  \<^verbatim>\<open>0\<close>, for a string of white space only and when no topic id was given; for every other
  topic id the field is present and holds the topic id as given.
\<close>

theorem thread_field_iff_topic:
  assumes "Post_call req \<in> set (trace w)"
  shows "(ascii ''message_thread_id'' \<in> dom (data req) \<longleftrightarrow>
            (\<exists>t. topic_id w = Some t \<and> strip t \<noteq> [] \<and> t \<noteq> ascii ''0'')) \<and>
         (\<forall>t. topic_id w = Some t \<and> (t = [] \<or> t = ascii ''0'' \<or> (\<forall>c \<in> set t. py_isspace c))
            \<longrightarrow> data req (ascii ''message_thread_id'') = None) \<and>
         (\<forall>t. topic_id w = Some t \<and> \<not> (\<forall>c \<in> set t. py_isspace c) \<and> t \<noteq> ascii ''0''
            \<longrightarrow> data req (ascii ''message_thread_id'') = Some t) \<and>
         (topic_id w = None \<longrightarrow> data req (ascii ''message_thread_id'') = None)"
proof -
  from post_in_trace [OF assms] obtain n where req: "req = the_request w n"
    by blast
  then have d: "data req = payload w n"
    by (simp add: the_request_def)
  have att: "topic_attached w \<longleftrightarrow> (\<exists>t. topic_id w = Some t \<and> strip t \<noteq> [] \<and> t \<noteq> ascii ''0'')"
    by (auto simp: topic_attached_def strip_def split: option.splits)
  have key: "ascii ''message_thread_id'' \<in> dom (data req) \<longleftrightarrow> topic_attached w"
    unfolding d by (rule thread_key_in_payload)
  have absent: "\<not> topic_attached w \<Longrightarrow> data req (ascii ''message_thread_id'') = None"
    using key by (auto simp: dom_def)
  have present: "topic_attached w \<Longrightarrow> data req (ascii ''message_thread_id'') = topic_id w"
    unfolding d by (rule thread_value_in_payload)
  show ?thesis
    using key absent present unfolding att
    by (auto simp: strip_empty_iff)
qed

theorem thread_field_iff_topic_witness:
  "data (the_request (example_world [ascii ''42''] 2097152 (Inr ok_response)) 2097152)
     (ascii ''message_thread_id'') = Some (ascii ''42'') \<and>
   data (the_request (example_world [ascii ''0''] 2097152 (Inr ok_response)) 2097152)
     (ascii ''message_thread_id'') = None \<and>
   data (the_request (example_world [ascii ''  ''] 2097152 (Inr ok_response)) 2097152)
     (ascii ''message_thread_id'') = None \<and>
   data (the_request (example_world [[]] 2097152 (Inr ok_response)) 2097152)
     (ascii ''message_thread_id'') = None"
proof -
  have "\<not> (\<forall>c \<in> set (ascii ''42''). py_isspace c)" and "ascii ''42'' \<noteq> ascii ''0''"
    by (simp_all add: ascii_def py_isspace_def)
  with thread_field_iff_topic [OF example_reaches_post [of "[ascii ''42'']" 2097152 "Inr ok_response"]]
  have a: "data (the_request (example_world [ascii ''42''] 2097152 (Inr ok_response)) 2097152)
     (ascii ''message_thread_id'') = Some (ascii ''42'')"
    by (simp add: example_topic)
  from thread_field_iff_topic [OF example_reaches_post [of "[ascii ''0'']" 2097152 "Inr ok_response"]]
  have b: "data (the_request (example_world [ascii ''0''] 2097152 (Inr ok_response)) 2097152)
     (ascii ''message_thread_id'') = None"
    by (simp add: example_topic)
  have "\<forall>c \<in> set (ascii ''  ''). py_isspace c"
    by (simp add: ascii_def py_isspace_def)
  with thread_field_iff_topic [OF example_reaches_post [of "[ascii ''  '']" 2097152 "Inr ok_response"]]
  have c: "data (the_request (example_world [ascii ''  ''] 2097152 (Inr ok_response)) 2097152)
     (ascii ''message_thread_id'') = None"
    by (simp add: example_topic)
  from thread_field_iff_topic [OF example_reaches_post [of "[[]]" 2097152 "Inr ok_response"]]
  have d: "data (the_request (example_world [[]] 2097152 (Inr ok_response)) 2097152)
     (ascii ''message_thread_id'') = None"
    by (simp add: example_topic)
  from a b c d show ?thesis by blast
qed

section \<open>The size in megabytes\<close>

text \<open>
  A byte count below \<open>2\<^sup>5\<^sup>3\<close> is a double as it stands, so the division by \<open>2\<^sup>2\<^sup>0\<close> is
  exact; the only rounding left is the one of the \<^verbatim>\<open>.2f\<close> format.
\<close>

lemma bit_length_le: "n < 2 ^ k \<Longrightarrow> bit_length n \<le> k"
proof (induction k arbitrary: n)
  case 0
  then show ?case by (simp add: bit_length.simps)
next
  case (Suc k)
  show ?case
  proof (cases "n = 0")
    case True
    then show ?thesis by (simp add: bit_length.simps)
  next
    case False
    from Suc.prems have "n div 2 < 2 ^ k" by simp
    then have "bit_length (n div 2) \<le> k" by (rule Suc.IH)
    with False show ?thesis by (subst bit_length.simps) simp
  qed
qed

lemma float_of_nat_exact: "n < 2 ^ 53 \<Longrightarrow> float_of_nat n = of_nat n"
  using bit_length_le [of n 53] by (simp add: float_of_nat_def)

lemma file_size_mb_exact: "n < 2 ^ 53 \<Longrightarrow> file_size_mb n = of_nat n / 1048576"
  by (simp add: file_size_mb_def float_of_nat_exact)

lemma round_half_even_near:
  assumes "0 \<le> y"
  shows "\<bar>of_nat (round_half_even y) - y\<bar> \<le> 1 / 2"
proof -
  from assms have f: "(of_nat (nat \<lfloor>y\<rfloor>) :: rat) = of_int \<lfloor>y\<rfloor>"
    by simp
  have "of_int \<lfloor>y\<rfloor> \<le> y" and "y < of_int \<lfloor>y\<rfloor> + 1"
    by linarith+
  then show ?thesis
    unfolding round_half_even_def Let_def f
    by (auto simp: f abs_le_iff) 
qed

lemma fmt_2f_exact:
  assumes "n < 2 ^ 53"
  shows "fmt_2f (file_size_mb n) = two_decimals (round_half_even (of_nat n / 1048576 * 100))"
proof -
  have "(0::rat) \<le> of_nat n / 1048576" by simp
  then show ?thesis
    by (simp add: fmt_2f_def file_size_mb_exact [OF assms])
qed

lemma fmt_2f_two_megabytes: "fmt_2f (file_size_mb 2097152) = ascii ''2.00''"
proof -
  have "round_half_even (of_nat 2097152 / 1048576 * 100) = 200"
    by (simp add: round_half_even_def)
  moreover have "two_decimals 200 = ascii ''2.00''"
    by (simp add: two_decimals_def dec_nat.simps ascii_def)
  ultimately show ?thesis
    using fmt_2f_exact [of 2097152] by simp
qed

lemma big_float: "float_of_nat 9007199254756721 = 9007199254756720"
proof -
  have "bit_length 9007199254756721 = 54"
    by (simp add: bit_length.simps)
  then show ?thesis
    by (simp add: float_of_nat_def Let_def)
qed

lemma big_fmt: "fmt_2f (file_size_mb 9007199254756721) = ascii ''8589934592.01''"
proof -
  have a: "file_size_mb 9007199254756721 = 9007199254756720 / 1048576"
    unfolding file_size_mb_def big_float by simp
  have b: "round_half_even (\<bar>9007199254756720 / 1048576\<bar> * 100) = 858993459201"
  proof -
    have "\<lfloor>\<bar>9007199254756720 / 1048576\<bar> * 100 :: rat\<rfloor> = 858993459201"
      by (rule floor_unique) simp_all
    then show ?thesis
      by (simp add: round_half_even_def Let_def)
  qed
  have c: "two_decimals 858993459201 = ascii ''8589934592.01''"
    by (simp add: two_decimals_def dec_nat.simps ascii_def)
  show ?thesis
    unfolding fmt_2f_def a b c by simp
qed

section \<open>The caption\<close>

lemma sub_skip: "sublist x b \<Longrightarrow> sublist x (a @ b)"
  by (metis sublist_append_leftI sublist_order.order.trans)

lemma sub_here2: "sublist (x @ y) (x @ y @ s)"
  by (metis append_assoc sublist_append_rightI)

lemma sub_here8: "sublist (a @ b @ c @ d @ e @ f @ g @ h) (a @ b @ c @ d @ e @ f @ g @ h @ s)"
  by (metis append_assoc sublist_append_rightI)

lemma caption_in_payload: "payload w n (ascii ''caption'') = Some (caption w n)"
  by (simp add: payload_def Let_def ascii_eq_iff)

lemma caption_has_label: "sublist (event_label w) (caption w n)"
  unfolding caption_def by (rule sublist_append_rightI | rule sub_skip)+

lemma caption_has_version: "sublist (version w) (caption w n)"
  unfolding caption_def by (rule sublist_append_rightI | rule sub_skip)+

lemma caption_has_file_name: "sublist (file_name w) (caption w n)"
  unfolding caption_def by (rule sublist_append_rightI | rule sub_skip)+

lemma caption_has_size: "sublist (fmt_2f (file_size_mb n)) (caption w n)"
  unfolding caption_def by (rule sublist_append_rightI | rule sub_skip)+

lemma caption_has_size_mb: "sublist (fmt_2f (file_size_mb n) @ ascii '' MB'') (caption w n)"
  unfolding caption_def by (rule sub_here2 | rule sub_skip)+

lemma caption_has_link:
  "sublist (ascii '' <a href='' @ [39] @ server_url w @ [47] @ repo w
              @ ascii ''/actions/runs/'' @ run_id w @ [39]) (caption w n)"
  unfolding caption_def run_url_def append_assoc by (rule sub_here8 | rule sub_skip)+

lemma example_run_url:
  "run_url (example_world a s r) = ascii ''https://github.com/o/r/actions/runs/7''"
  by (simp add: run_url_def example_env ascii_def)

lemma selecting_in_trace:
  assumes "Post_call req \<in> set (trace w)" and "getsize w (file_path w) = Inr n"
  shows "Print (selecting_line w n) \<in> set (trace w)"
  using post_in_trace [OF assms(1)] assms(2) by (auto simp: trace_def)

text \<open>
  Claim C6 says that the hyperlink's URL is the concatenation of the server URL, the
  repository slug, \<^verbatim>\<open>/actions/runs/\<close> and the run id. Line 21 puts a slash between the
  server URL and the slug, so the concatenation of the four parts alone is not the URL of the
  link: with server \<^verbatim>\<open>https://github.com\<close>, slug \<^verbatim>\<open>o/r\<close> and run id \<^verbatim>\<open>7\<close> it is
  \<^verbatim>\<open>https://github.como/r/actions/runs/7\<close>, which occurs nowhere in the caption posted.
\<close>

theorem link_is_not_plain_concatenation:
  "Post_call (the_request (example_world [] 2097152 (Inr ok_response)) 2097152)
     \<in> set (trace (example_world [] 2097152 (Inr ok_response))) \<and>
   data (the_request (example_world [] 2097152 (Inr ok_response)) 2097152) (ascii ''caption'')
     = Some (caption (example_world [] 2097152 (Inr ok_response)) 2097152) \<and>
   server_url (example_world [] 2097152 (Inr ok_response))
     @ repo (example_world [] 2097152 (Inr ok_response)) @ ascii ''/actions/runs/''
     @ run_id (example_world [] 2097152 (Inr ok_response))
     = ascii ''https://github.como/r/actions/runs/7'' \<and>
   \<not> sublist (ascii ''https://github.como/r/actions/runs/7'')
       (caption (example_world [] 2097152 (Inr ok_response)) 2097152)"
proof -
  let ?w = "example_world [] 2097152 (Inr ok_response)"
  have "data (the_request ?w 2097152) (ascii ''caption'') = Some (caption ?w 2097152)"
    by (simp add: the_request_def caption_in_payload)
  moreover have "server_url ?w @ repo ?w @ ascii ''/actions/runs/'' @ run_id ?w
      = ascii ''https://github.como/r/actions/runs/7''"
    by (simp add: example_env ascii_def)
  moreover have "\<not> sublist (ascii ''https://github.como/r/actions/runs/7'') (caption ?w 2097152)"
    by (simp add: caption_def example_label_name example_env example_run_url
        fmt_2f_two_megabytes ascii_def sublist_code(3))
  ultimately show ?thesis
    using example_reaches_post [of "[]" 2097152 "Inr ok_response"] by blast
qed

text \<open>
  Claim C6, amended. In every run that posts, the caption field of the form data contains
  the event label, the version string, the file name and the formatted size, each as
  computed, and a hyperlink whose URL is the server URL, a slash, the repository slug,
  \<^verbatim>\<open>/actions/runs/\<close> and the run id, in this order.
\<close>

theorem caption_contents:
  assumes "Post_call req \<in> set (trace w)"
  shows "\<exists>n cap. getsize w (file_path w) = Inr n \<and> data req (ascii ''caption'') = Some cap \<and>
           sublist (event_label w) cap \<and> sublist (version w) cap \<and>
           sublist (file_name w) cap \<and> sublist (fmt_2f (file_size_mb n)) cap \<and>
           sublist (ascii '' <a href='' @ [39] @ server_url w @ [47] @ repo w
                      @ ascii ''/actions/runs/'' @ run_id w @ [39]) cap"
proof -
  from post_in_trace [OF assms] obtain n where
    n: "getsize w (file_path w) = Inr n" and req: "req = the_request w n"
    by blast
  from req have "data req (ascii ''caption'') = Some (caption w n)"
    by (simp add: the_request_def caption_in_payload)
  with n show ?thesis
    using caption_has_label caption_has_version caption_has_file_name caption_has_size
      caption_has_link
    by blast
qed

theorem caption_contents_witness:
  "\<exists>cap. data (the_request (example_world [] 2097152 (Inr ok_response)) 2097152)
            (ascii ''caption'') = Some cap \<and>
     sublist (ascii ''New Yield / '' @ [0x65B0, 0x4EA7, 0x7269]) cap \<and>
     sublist (ascii ''Unknown'') cap \<and> sublist (ascii ''m.zip'') cap \<and>
     sublist (ascii ''2.00'') cap \<and>
     sublist (ascii '' <a href='' @ [39] @ ascii ''https://github.com'' @ [47] @ ascii ''o/r''
                @ ascii ''/actions/runs/'' @ ascii ''7'' @ [39]) cap"
  using caption_contents [OF example_reaches_post [of "[]" 2097152 "Inr ok_response"]]
  by (simp add: example_files example_label_name example_env fmt_2f_two_megabytes)

text \<open>
  Claim C7 says that for every byte count \<open>n\<close> the size shown is \<open>n / 1048576\<close> rounded to
  two decimals. The division is a float division, so from \<open>2\<^sup>5\<^sup>3\<close> bytes on the byte count is
  rounded to a double first: for 9007199254756721 bytes the run shows
  \<^verbatim>\<open>8589934592.01\<close>, which is further than half a hundredth from the quotient; the
  hundredth nearest to the quotient is \<^verbatim>\<open>8589934592.02\<close>.
\<close>

theorem size_string_off_beyond_double_precision:
  "getsize (example_world [] 9007199254756721 (Inr ok_response))
     (file_path (example_world [] 9007199254756721 (Inr ok_response))) = Inr 9007199254756721 \<and>
   Print (ascii ''Selecting yield: m.zip ('' @ ascii ''8589934592.01'' @ ascii '' MB)'')
     \<in> set (trace (example_world [] 9007199254756721 (Inr ok_response))) \<and>
   fmt_2f (file_size_mb 9007199254756721) = ascii ''8589934592.01'' \<and>
   \<not> \<bar>858993459201 / 100 - 9007199254756721 / 1048576\<bar> \<le> (1 / 200 :: rat) \<and>
   \<bar>858993459202 / 100 - 9007199254756721 / 1048576\<bar> \<le> (1 / 200 :: rat)"
proof -
  let ?w = "example_world [] 9007199254756721 (Inr ok_response)"
  have size: "getsize ?w (file_path ?w) = Inr 9007199254756721"
    by (simp add: example_files)
  from selecting_in_trace [OF example_reaches_post size]
  have "Print (ascii ''Selecting yield: m.zip ('' @ ascii ''8589934592.01'' @ ascii '' MB)'')
     \<in> set (trace ?w)"
    by (simp add: selecting_line_def big_fmt example_label_name ascii_def)
  moreover have "\<not> \<bar>858993459201 / 100 - 9007199254756721 / 1048576\<bar> \<le> (1 / 200 :: rat)"
    by simp
  moreover have "\<bar>858993459202 / 100 - 9007199254756721 / 1048576\<bar> \<le> (1 / 200 :: rat)"
    by simp
  ultimately show ?thesis
    using size big_fmt by blast
qed

text \<open>
  Claim C7, amended. For every artifact whose byte count \<open>n\<close> is below \<open>2\<^sup>5\<^sup>3\<close>, the size
  string is a number of hundredths \<open>c\<close>, written with two decimals, that is nearest to
  \<open>n / 1048576\<close> (at most half a hundredth away; \<open>n = 2097152\<close> gives \<^verbatim>\<open>2.00\<close>), and this
  one string is in the line printed at line 32 and, followed by \<^verbatim>\<open> MB\<close>, in the caption
  posted.
\<close>

theorem size_string_is_rounded_megabytes:
  assumes "Post_call req \<in> set (trace w)" and "getsize w (file_path w) = Inr n"
    and "n < 2 ^ 53"
  shows "\<exists>c. \<bar>of_nat c / 100 - of_nat n / 1048576\<bar> \<le> (1 / 200 :: rat) \<and>
           fmt_2f (file_size_mb n) = two_decimals c \<and>
           Print (ascii ''Selecting yield: '' @ file_name w @ ascii '' ('' @ two_decimals c
                    @ ascii '' MB)'') \<in> set (trace w) \<and>
           (\<exists>cap. data req (ascii ''caption'') = Some cap \<and>
                  sublist (two_decimals c @ ascii '' MB'') cap)"
proof -
  define c where "c = round_half_even (of_nat n / 1048576 * 100)"
  have "\<bar>of_nat c - of_nat n / 1048576 * 100\<bar> \<le> (1 / 2 :: rat)"
    unfolding c_def by (rule round_half_even_near) simp
  then have near: "\<bar>of_nat c / 100 - of_nat n / 1048576\<bar> \<le> (1 / 200 :: rat)"
    by linarith
  have fmt: "fmt_2f (file_size_mb n) = two_decimals c"
    unfolding c_def by (rule fmt_2f_exact [OF assms(3)])
  from selecting_in_trace [OF assms(1,2)]
  have line: "Print (ascii ''Selecting yield: '' @ file_name w @ ascii '' ('' @ two_decimals c
                    @ ascii '' MB)'') \<in> set (trace w)"
    by (simp add: selecting_line_def fmt)
  from post_in_trace [OF assms(1)] assms(2) have "req = the_request w n"
    by auto
  then have "data req (ascii ''caption'') = Some (caption w n)"
    by (simp add: the_request_def caption_in_payload)
  moreover have "sublist (two_decimals c @ ascii '' MB'') (caption w n)"
    using caption_has_size_mb [of n w] by (simp add: fmt)
  ultimately show ?thesis
    using near fmt line by blast
qed

theorem size_string_is_rounded_megabytes_witness:
  "fmt_2f (file_size_mb 2097152) = ascii ''2.00'' \<and>
   (\<exists>c. \<bar>of_nat c / 100 - of_nat 2097152 / 1048576\<bar> \<le> (1 / 200 :: rat) \<and>
        ascii ''2.00'' = two_decimals c \<and>
        Print (ascii ''Selecting yield: '' @ ascii ''m.zip'' @ ascii '' ('' @ two_decimals c
                 @ ascii '' MB)'')
          \<in> set (trace (example_world [] 2097152 (Inr ok_response))))"
proof -
  let ?w = "example_world [] 2097152 (Inr ok_response)"
  have "getsize ?w (file_path ?w) = Inr 2097152"
    by (simp add: example_files)
  moreover have "(2097152::nat) < 2 ^ 53"
    by simp
  ultimately show ?thesis
    using size_string_is_rounded_megabytes [OF example_reaches_post [of "[]" 2097152 "Inr ok_response"], of 2097152]
    by (simp only: fmt_2f_two_megabytes example_label_name) blast
qed

section \<open>The size is for display only\<close>

lemma getsize_frame:
  "bot_token (w\<lparr>getsize := g\<rparr>) = bot_token w"
  "chat_id (w\<lparr>getsize := g\<rparr>) = chat_id w"
  "files_found (w\<lparr>getsize := g\<rparr>) = files_found w"
  "file_path (w\<lparr>getsize := g\<rparr>) = file_path w"
  "file_name (w\<lparr>getsize := g\<rparr>) = file_name w"
  "topic_id (w\<lparr>getsize := g\<rparr>) = topic_id w"
  "topic_attached (w\<lparr>getsize := g\<rparr>) = topic_attached w"
  "post_url (w\<lparr>getsize := g\<rparr>) = post_url w"
  "open_rb (w\<lparr>getsize := g\<rparr>) = open_rb w"
  "post (w\<lparr>getsize := g\<rparr>) = post w"
  "selecting_line (w\<lparr>getsize := g\<rparr>) = selecting_line w"
  "targeting_line (w\<lparr>getsize := g\<rparr>) = targeting_line w"
  by (simp_all add: bot_token_def chat_id_def files_found_def file_path_def file_name_def
      topic_id_def topic_attached_def post_url_def selecting_line_def targeting_line_def
      fun_eq_iff)

lemma can_encode_frame: "can_encode (w\<lparr>getsize := g\<rparr>) = can_encode w"
  by (simp add: fun_eq_iff can_encode_def)

lemma py_print_frame: "py_print (w\<lparr>getsize := g\<rparr>) = py_print w"
  by (simp add: fun_eq_iff py_print_def print_error_def can_print_def can_encode_frame)

lemma topic_step_frame: "topic_step (w\<lparr>getsize := g\<rparr>) = topic_step w"
  by (simp add: topic_step_def py_print_frame getsize_frame)

text \<open>
  Whether the line of line 32 can be printed, and the error when it cannot, depend on the
  file name only: the size is written in ASCII and stands after the file name and a space.
\<close>

lemma takeWhile_stops: "\<not> Q b \<Longrightarrow> takeWhile Q (d @ b # ys) = takeWhile Q d"
  by (induction d) simp_all

lemma first_bad_run:
  assumes "x \<in> set xs" and "\<not> P x" and "P b"
  shows "takeWhile P (xs @ b # ys) = takeWhile P xs"
    and "takeWhile (\<lambda>c. \<not> P c) (dropWhile P (xs @ b # ys))
           = takeWhile (\<lambda>c. \<not> P c) (dropWhile P xs)"
proof -
  from assms(1,2) show "takeWhile P (xs @ b # ys) = takeWhile P xs"
    by (rule takeWhile_append1)
  from assms(1,2) have "dropWhile P (xs @ b # ys) = dropWhile P xs @ b # ys"
    by (rule dropWhile_append1)
  with assms(3) show "takeWhile (\<lambda>c. \<not> P c) (dropWhile P (xs @ b # ys))
      = takeWhile (\<lambda>c. \<not> P c) (dropWhile P xs)"
    by (simp add: takeWhile_stops)
qed

lemma selecting_line_split:
  "selecting_line w n =
     (ascii ''Selecting yield: '' @ file_name w) @ 32 # (40 # fmt_2f (file_size_mb n)
       @ ascii '' MB)'')"
  by (simp add: selecting_line_def ascii_def)

lemma py_print_selecting_line:
  "map erase (fst (py_print w (selecting_line w n')))
     = map erase (fst (py_print w (selecting_line w n))) \<and>
   snd (py_print w (selecting_line w n')) = snd (py_print w (selecting_line w n))"
proof (cases "can_print w (file_name w)")
  case True
  then show ?thesis
    by (simp add: py_print_ok can_print_selecting_line)
next
  case False
  let ?head = "ascii ''Selecting yield: '' @ file_name w"
  from False obtain x where x: "x \<in> set ?head" "\<not> can_encode w x"
    by (auto simp: can_print_def list_all_iff)
  have b: "can_encode w 32"
    by (simp add: can_encode_def)
  have pos: "takeWhile (can_encode w) (selecting_line w k) = takeWhile (can_encode w) ?head"
    for k unfolding selecting_line_split by (rule first_bad_run(1) [OF x b])
  have run: "takeWhile (\<lambda>c. \<not> can_encode w c) (dropWhile (can_encode w) (selecting_line w k))
      = takeWhile (\<lambda>c. \<not> can_encode w c) (dropWhile (can_encode w) ?head)"
    for k unfolding selecting_line_split by (rule first_bad_run(2) [OF x b])
  from False have "\<not> can_print w (selecting_line w k)" for k
    by (simp add: can_print_selecting_line)
  then show ?thesis
    by (simp add: py_print_fails pos run)
qed

lemma erase_then_do:
  assumes "map erase (fst a') = map erase (fst a) \<and> snd a' = snd a"
    and "map erase (fst b') = map erase (fst b) \<and> snd b' = snd b"
  shows "map erase (fst (then_do a' b')) = map erase (fst (then_do a b)) \<and>
         snd (then_do a' b') = snd (then_do a b)"
  using assms by (cases "snd a") (simp_all add: then_do_def)

lemma erase_request:
  "erase (Post_call (the_request (w\<lparr>getsize := g\<rparr>) n'))
     = erase (Post_call (the_request w n))"
  by (auto simp: the_request_def payload_def Let_def getsize_frame fun_eq_iff)

lemma erase_try_body:
  assumes "post w (the_request (w\<lparr>getsize := g\<rparr>) n') = post w (the_request w n)"
  shows "map erase (fst (try_body (w\<lparr>getsize := g\<rparr>) n')) = map erase (fst (try_body w n)) \<and>
         snd (try_body (w\<lparr>getsize := g\<rparr>) n') = snd (try_body w n)"
  using assms erase_request [where w = w and g = g and n' = n' and n = n]
  by (auto simp: try_body_def then_do_def getsize_frame py_print_frame
      split: option.splits sum.splits)

lemma erase_send_step:
  assumes "post w (the_request (w\<lparr>getsize := g\<rparr>) n') = post w (the_request w n)"
  shows "map erase (fst (send_step (w\<lparr>getsize := g\<rparr>) n')) = map erase (fst (send_step w n)) \<and>
         snd (send_step (w\<lparr>getsize := g\<rparr>) n') = snd (send_step w n)"
proof -
  obtain tr r where b: "try_body w n = (tr, r)"
    by (cases "try_body w n")
  obtain tr' r' where b': "try_body (w\<lparr>getsize := g\<rparr>) n' = (tr', r')"
    by (cases "try_body (w\<lparr>getsize := g\<rparr>) n'")
  from erase_try_body [OF assms] b b' have "map erase tr' = map erase tr" and "r' = r"
    by simp_all
  then show ?thesis
    by (auto simp: send_step_def then_do_def py_print_frame b b'
        split: sum.splits py_exception.splits)
qed

text \<open>
  Claim C8. Take two runs that differ only in the byte count of the artifact, and let the
  network give the two posts the same answer (the same response or the same exception). Then
  the two runs make the same calls in the same order with the same arguments, print the same
  number of lines at the same places and end the same way, with the same exit status: their
  traces are equal once the printed text and the caption field are blanked, which are the
  only places where the size shows.
\<close>

theorem size_decides_nothing:
  assumes "getsize w (file_path w) = Inr n"
    and "w' = w\<lparr>getsize := (getsize w)(file_path w := Inr n')\<rparr>"
    and "post w (the_request w' n') = post w (the_request w n)"
  shows "map erase (trace w') = map erase (trace w) \<and>
         snd (send_telegram_file w') = snd (send_telegram_file w) \<and>
         process_status w' = process_status w"
proof -
  let ?g = "(getsize w)(file_path w := Inr n')"
  have size': "getsize w' (file_path w') = Inr n'"
    by (simp add: assms(2) getsize_frame)
  have both: "map erase (fst (send_telegram_file w')) = map erase (fst (send_telegram_file w)) \<and>
              snd (send_telegram_file w') = snd (send_telegram_file w)"
  proof (cases "falsy (bot_token w) \<or> falsy (chat_id w)")
    case True
    then show ?thesis
      by (simp add: send_telegram_file_def assms(2) getsize_frame py_print_frame)
  next
    case cred: False
    show ?thesis
    proof (cases "files_found w = []")
      case True
      with cred show ?thesis
        by (simp add: send_telegram_file_def assms(2) getsize_frame py_print_frame)
    next
      case False
      from assms(3) have "post w (the_request (w\<lparr>getsize := ?g\<rparr>) n') = post w (the_request w n)"
        by (simp add: assms(2))
      from erase_send_step [OF this] have step:
        "map erase (fst (send_step w' n')) = map erase (fst (send_step w n)) \<and>
         snd (send_step w' n') = snd (send_step w n)"
        by (simp add: assms(2))
      from cred False have run: "send_telegram_file w =
          then_do ([Glob_call zip_pattern, Getsize_call (file_path w)], Inr ())
            (then_do (py_print w (selecting_line w n))
               (then_do (topic_step w)
                  (then_do (py_print w dispatching_line) (send_step w n))))"
        using run_with_size [of w n] assms(1) by simp
      from cred False have run': "send_telegram_file w' =
          then_do ([Glob_call zip_pattern, Getsize_call (file_path w)], Inr ())
            (then_do (py_print w (selecting_line w n'))
               (then_do (topic_step w)
                  (then_do (py_print w dispatching_line) (send_step w' n'))))"
        using run_with_size [of w' n'] size'
        by (simp add: assms(2) getsize_frame py_print_frame topic_step_frame)
      show ?thesis
        unfolding run run'
        by (intro erase_then_do py_print_selecting_line step conjI refl)
    qed
  qed
  then show ?thesis
    by (simp add: trace_def process_status_def)
qed

theorem size_decides_nothing_witness:
  "map erase (trace (example_world [] 1 (Inr forbidden)
       \<lparr>getsize := (getsize (example_world [] 1 (Inr forbidden)))
          (file_path (example_world [] 1 (Inr forbidden)) := Inr 2097152)\<rparr>))
     = map erase (trace (example_world [] 1 (Inr forbidden))) \<and>
   process_status (example_world [] 1 (Inr forbidden)
       \<lparr>getsize := (getsize (example_world [] 1 (Inr forbidden)))
          (file_path (example_world [] 1 (Inr forbidden)) := Inr 2097152)\<rparr>)
     = process_status (example_world [] 1 (Inr forbidden))"
proof -
  let ?w = "example_world [] 1 (Inr forbidden)"
  let ?w' = "?w\<lparr>getsize := (getsize ?w)(file_path ?w := Inr 2097152)\<rparr>"
  have "getsize ?w (file_path ?w) = Inr 1"
    by (simp add: example_files)
  moreover have "post ?w (the_request ?w' 2097152) = post ?w (the_request ?w 1)"
    by (simp add: example_files)
  ultimately show ?thesis
    using size_decides_nothing [of ?w 1 ?w' 2097152] by blast
qed

end
